theory Spec2Isabelle
  imports Main "HOL-Library.Sublist"
begin

text \<open>
  The registration, email-verification and login routes of \<^verbatim>\<open>backend/routes/auth.js\<close>,
  with the directory of \<^verbatim>\<open>constants/universities.js\<close> and the schema of
  \<^verbatim>\<open>models/User.js\<close>. Each route is a function from the collaborators' answers, the
  state before the request and the request to a response and the state after it.
\<close>

section \<open>Strings\<close>

text \<open>
  A JavaScript string is a sequence of UTF-16 code units. The model uses \<open>string\<close>, whose
  characters are 8-bit: it covers the strings whose code units are all below 256, and
  \<open>length\<close> is JavaScript's \<open>.length\<close> on them.
\<close>

definition ascii_upper :: string where
  "ascii_upper = ''ABCDEFGHIJKLMNOPQRSTUVWXYZ''"

definition ascii_lower :: string where
  "ascii_lower = ''abcdefghijklmnopqrstuvwxyz''"

definition digits :: string where
  "digits = ''0123456789''"

text \<open>The upper-case letters of the range 128..255 and their lower-case forms (each 32 above).\<close>

definition latin1_upper :: string where
  "latin1_upper =
     [CHR 0xC0, CHR 0xC1, CHR 0xC2, CHR 0xC3, CHR 0xC4, CHR 0xC5, CHR 0xC6, CHR 0xC7,
      CHR 0xC8, CHR 0xC9, CHR 0xCA, CHR 0xCB, CHR 0xCC, CHR 0xCD, CHR 0xCE, CHR 0xCF,
      CHR 0xD0, CHR 0xD1, CHR 0xD2, CHR 0xD3, CHR 0xD4, CHR 0xD5, CHR 0xD6,
      CHR 0xD8, CHR 0xD9, CHR 0xDA, CHR 0xDB, CHR 0xDC, CHR 0xDD, CHR 0xDE]"

definition latin1_lower :: string where
  "latin1_lower =
     [CHR 0xE0, CHR 0xE1, CHR 0xE2, CHR 0xE3, CHR 0xE4, CHR 0xE5, CHR 0xE6, CHR 0xE7,
      CHR 0xE8, CHR 0xE9, CHR 0xEA, CHR 0xEB, CHR 0xEC, CHR 0xED, CHR 0xEE, CHR 0xEF,
      CHR 0xF0, CHR 0xF1, CHR 0xF2, CHR 0xF3, CHR 0xF4, CHR 0xF5, CHR 0xF6,
      CHR 0xF8, CHR 0xF9, CHR 0xFA, CHR 0xFB, CHR 0xFC, CHR 0xFD, CHR 0xFE]"

definition is_letter :: "char \<Rightarrow> bool" where
  \<comment> \<open>the class \<^verbatim>\<open>[a-zA-Z]\<close>\<close>
  "is_letter c = (c \<in> set ascii_lower \<or> c \<in> set ascii_upper)"

definition is_digit :: "char \<Rightarrow> bool" where
  \<comment> \<open>\<^verbatim>\<open>\d\<close>, which is \<^verbatim>\<open>[0-9]\<close> in a JavaScript regular expression\<close>
  "is_digit c = (c \<in> set digits)"

definition fold_ascii :: "char \<Rightarrow> char" where
  \<comment> \<open>how the \<^verbatim>\<open>i\<close> flag compares: only A-Z and a-z are identified\<close>
  "fold_ascii c = (case map_of (zip ascii_upper ascii_lower) c of Some l \<Rightarrow> l | None \<Rightarrow> c)"

definition lower_char :: "char \<Rightarrow> char" where
  "lower_char c =
     (case map_of (zip (ascii_upper @ latin1_upper) (ascii_lower @ latin1_lower)) c of
        Some l \<Rightarrow> l
      | None \<Rightarrow> c)"

definition toLowerCase :: "string \<Rightarrow> string" where
  "toLowerCase s = map lower_char s"

definition startsWith :: "string \<Rightarrow> string \<Rightarrow> bool" where
  "startsWith s p = prefix p s"

definition apostrophe :: char where
  "apostrophe = CHR 0x27"

definition quoted :: "string \<Rightarrow> string" where
  \<comment> \<open>\<^verbatim>\<open>'${s}'\<close> inside a template literal\<close>
  "quoted s = apostrophe # s @ [apostrophe]"

section \<open>Password policy\<close>

text \<open>
  \<^verbatim>\<open>validatePasswordStrength\<close> of \<^verbatim>\<open>backend/routes/auth.js\<close>: four requirements, each
  computed on its own, and \<^verbatim>\<open>isStrong\<close> as \<^verbatim>\<open>Object.values(requirements).every(...)\<close>.
\<close>

definition special_chars :: string where
  \<comment> \<open>the class of \<^verbatim>\<open>hasSpecial\<close>; \<open>CHR 0x22\<close> is the double quote\<close>
  "special_chars = ''!@#$%^&*(),.?'' @ [CHR 0x22] @ '':{}|<>''"

record requirements =
  req_length :: bool
  hasLetter :: bool
  hasDigit :: bool
  hasSpecial :: bool

record strength =
  isStrong :: bool
  requirements :: requirements

definition requirement_values :: "requirements \<Rightarrow> bool list" where
  \<comment> \<open>\<^verbatim>\<open>Object.values(requirements)\<close>, in insertion order\<close>
  "requirement_values r = [req_length r, hasLetter r, hasDigit r, hasSpecial r]"

definition validatePasswordStrength :: "string \<Rightarrow> strength" where
  "validatePasswordStrength password =
     (let reqs = \<lparr> req_length = (length password \<ge> 6),
                    hasLetter = list_ex is_letter password,
                    hasDigit = list_ex is_digit password,
                    hasSpecial = list_ex (\<lambda>c. c \<in> set special_chars) password \<rparr>
      in \<lparr> isStrong = list_all (\<lambda>req. req = True) (requirement_values reqs),
           requirements = reqs \<rparr>)"

section \<open>Directory of universities\<close>

text \<open>
  \<^verbatim>\<open>Universities\<close> and each \<^verbatim>\<open>subdomains\<close> are plain object literals, read with
  \<^verbatim>\<open>obj[key]\<close>. Such a read finds the object's own property first and otherwise follows
  the prototype chain to \<^verbatim>\<open>Object.prototype\<close>, whose members are functions or objects
  (all truthy); only a name found nowhere gives \<^verbatim>\<open>undefined\<close>.
\<close>

datatype 'a property = Undefined | Own 'a | Inherited string

definition object_prototype_names :: "string list" where
  "object_prototype_names =
     [''constructor'', ''__proto__'', ''hasOwnProperty'', ''isPrototypeOf'',
      ''propertyIsEnumerable'', ''toLocaleString'', ''toString'', ''valueOf'',
      ''__defineGetter__'', ''__defineSetter__'', ''__lookupGetter__'', ''__lookupSetter__'']"

definition get_property :: "(string \<rightharpoonup> 'a) \<Rightarrow> string \<Rightarrow> 'a property" where
  "get_property obj key =
     (case obj key of
        Some v \<Rightarrow> Own v
      | None \<Rightarrow> if key \<in> set object_prototype_names then Inherited key else Undefined)"

record university_entry =
  name :: string
  subdomains :: "string \<rightharpoonup> string"

type_synonym directory = "string \<rightharpoonup> university_entry"

definition cairo_subdomains :: "(string \<times> string) list" where
  \<comment> \<open>the source writes Dar Al-Ulum with a non-breaking hyphen (U+2011)\<close>
  "cairo_subdomains =
     [(''sca'', ''Faculty of Arts''),
      (''sci'', ''Faculty of Science''),
      (''eng'', ''Faculty of Engineering''),
      (''med'', ''Faculty of Medicine''),
      (''dentistry'', ''Faculty of Dentistry''),
      (''pharma'', ''Faculty of Pharmacy''),
      (''law'', ''Faculty of Law''),
      (''foc'', ''Faculty of Commerce''),
      (''edu'', ''Faculty of Education''),
      (''agr'', ''Faculty of Agriculture''),
      (''vet'', ''Faculty of Veterinary Medicine''),
      (''pt'', ''Faculty of Physical Therapy''),
      (''fci'', ''Faculty of Computers & AI''),
      (''nursing'', ''Faculty of Nursing''),
      (''masscomm'', ''Faculty of Mass Communication''),
      (''feps'', ''Faculty of Economics & Political Science''),
      (''dar'', ''Faculty of Dar Al-Ulum''),
      (''arch'', ''Faculty of Archaeology''),
      (''rup'', ''Faculty of Regional & Urban Planning'')]"

definition cairo_university :: university_entry where
  "cairo_university = \<lparr> name = ''Cairo University'', subdomains = map_of cairo_subdomains \<rparr>"

definition Universities :: directory where
  "Universities = [''cu.edu.eg'' \<mapsto> cairo_university]"

section \<open>Email resolver\<close>

text \<open>
  The pattern of \<^verbatim>\<open>extractUserDataFromEmail\<close> is
  \<^verbatim>\<open>/^([a-zA-Z0-9._%+-]+)@(?:(std)\.)?([^.]+)\.(cu\.edu\.eg)$/i\<close>.
  Group 1 cannot hold an at sign, so it is the longest run of class characters at the start
  and the next character must be the at sign. What follows must end with the ten characters
  \<^verbatim>\<open>.cu.edu.eg\<close> (in any case), and what stands before them is either \<^verbatim>\<open>std.\<close> (in any
  case) and a non-empty run without a dot, or a non-empty run without a dot; the two cannot
  both apply. \<open>match_email\<close> returns the groups 1, 2 (as a flag), 3 and 4.
\<close>

definition is_local_char :: "char \<Rightarrow> bool" where
  "is_local_char c = (is_letter c \<or> is_digit c \<or> c \<in> set ''._%+-'')"

definition dot_free :: "string \<Rightarrow> bool" where
  \<comment> \<open>\<^verbatim>\<open>[^.]+\<close>\<close>
  "dot_free s = (s \<noteq> [] \<and> CHR ''.'' \<notin> set s)"

definition match_email :: "string \<Rightarrow> (string \<times> bool \<times> string \<times> string) option" where
  "match_email email =
     (let emailPrefix = takeWhile is_local_char email;
          rest = dropWhile is_local_char email
      in if emailPrefix = [] then None
         else case rest of
           [] \<Rightarrow> None
         | c # host \<Rightarrow>
             if length host < 10 \<or> c \<noteq> CHR ''@'' then None
             else
               let middle = take (length host - 10) host;
                   ending = drop (length host - 10) host
               in if map fold_ascii ending \<noteq> ''.cu.edu.eg'' then None
                  else if map fold_ascii (take 4 middle) = ''std.'' \<and> dot_free (drop 4 middle)
                    then Some (emailPrefix, True, drop 4 middle, drop 1 ending)
                  else if dot_free middle
                    then Some (emailPrefix, False, middle, drop 1 ending)
                  else None)"

datatype role = student | instructor

record email_data =
  ed_university :: string
  ed_faculty :: "string property"
  ed_role :: role
  ed_studentId :: "string option"

text \<open>The messages of the errors the resolver throws.\<close>

definition invalid_format_message :: string where
  "invalid_format_message = ''Invalid Cairo University email format''"

definition unsupported_university_message :: "string \<Rightarrow> string" where
  "unsupported_university_message domain =
     ''University '' @ quoted domain @ '' is not supported yet''"

definition unsupported_faculty_message :: "string \<Rightarrow> string \<Rightarrow> string" where
  "unsupported_faculty_message subdomain uname =
     ''Faculty '' @ quoted subdomain @ '' is not recognized at '' @ uname"

definition student_prefix_message :: string where
  "student_prefix_message =
     ''Student email must have a 9-digit prefix (new) or 7-digit prefix (legacy) as student ID''"

definition type_error_message :: "string \<Rightarrow> string" where
  \<comment> \<open>reading a property of \<^verbatim>\<open>undefined\<close> (the text is the engine's)\<close>
  "type_error_message key =
     ''Cannot read properties of undefined (reading '' @ quoted key @ '')''"

definition truthy :: "string property \<Rightarrow> bool" where
  "truthy v = (case v of Undefined \<Rightarrow> False | Own s \<Rightarrow> s \<noteq> [] | Inherited _ \<Rightarrow> True)"

definition all_digits :: "nat \<Rightarrow> string \<Rightarrow> bool" where
  \<comment> \<open>\<^verbatim>\<open>/^\d{n}$/\<close>\<close>
  "all_digits n s = (length s = n \<and> list_all is_digit s)"

definition substr :: "string \<Rightarrow> nat \<Rightarrow> nat \<Rightarrow> string" where
  "substr s start len = take len (drop start s)"

definition resolved :: "university_entry \<Rightarrow> string property \<Rightarrow> bool \<Rightarrow> string option \<Rightarrow> email_data" where
  \<comment> \<open>the object the resolver returns\<close>
  "resolved universityData faculty isStudent sid =
     \<lparr> ed_university = name universityData,
       ed_faculty = faculty,
       ed_role = (if isStudent then student else instructor),
       ed_studentId = sid \<rparr>"

definition extractUserDataFromEmail :: "directory \<Rightarrow> string \<Rightarrow> string + email_data" where
  "extractUserDataFromEmail dir email =
     (case match_email email of
        None \<Rightarrow> Inl invalid_format_message
      | Some (emailPrefix, isStudent, m3, m4) \<Rightarrow>
          let subdomain = toLowerCase m3;
              domain = toLowerCase m4
          in case get_property dir domain of
               Undefined \<Rightarrow> Inl (unsupported_university_message domain)
             | Inherited _ \<Rightarrow> Inl (type_error_message subdomain)
             | Own universityData \<Rightarrow>
                 let faculty = get_property (subdomains universityData) subdomain
                 in if truthy faculty
                    then (if isStudent
                          then (if all_digits 9 emailPrefix
                                then Inr (resolved universityData faculty isStudent
                                            (Some (substr emailPrefix 2 7)))
                                else if all_digits 7 emailPrefix
                                then Inr (resolved universityData faculty isStudent
                                            (Some emailPrefix))
                                else Inl student_prefix_message)
                          else Inr (resolved universityData faculty isStudent None))
                    else Inl (unsupported_faculty_message subdomain (name universityData)))"

section \<open>Accounts and their store\<close>

text \<open>
  A document of the \<^verbatim>\<open>User\<close> model (\<^verbatim>\<open>backend/models/User.js\<close>, the schema that declares
  \<^verbatim>\<open>isEmailVerified\<close>). An \<^verbatim>\<open>ObjectId\<close> is twelve bytes, read here as one number; its
  first four bytes are the creation time in seconds, which \<^verbatim>\<open>getTimestamp\<close> returns as a
  date. Dates are milliseconds since the epoch.
\<close>

type_synonym object_id = nat

definition getTimestamp :: "object_id \<Rightarrow> int" where
  "getTimestamp i = int (i div 2 ^ 64) * 1000"

record user =
  oid :: object_id
  fullName :: string
  email :: string
  studentId :: "string option"
  password :: string
  role :: role
  university :: string
  college :: string
  isEmailVerified :: bool
  createdAt :: "int option"

text \<open>What \<^verbatim>\<open>POST /register\<close> hands to \<^verbatim>\<open>User.create\<close>.\<close>

record user_payload =
  p_fullName :: string
  p_email :: string
  p_password :: string
  p_role :: role
  p_university :: string
  p_college :: "string property"
  p_isEmailVerified :: bool
  p_studentId :: "string option"

datatype db_op = FindById | FindOne | Create | DeleteOne | Save

text \<open>
  What a store operation rejects with: the duplicate-key error (code 11000) of a unique
  index, carrying the one key of its \<^verbatim>\<open>keyPattern\<close>; the schema's validation error with
  the messages of its \<^verbatim>\<open>errors\<close>; or anything else.
\<close>

datatype db_error =
    DuplicateKey string
  | ValidationError "string list"
  | OtherError

text \<open>
  The collaborators' answers during one request: the clock, the password hasher, the token
  signer, the mail transport, the identifier the driver allots to a new document, the
  store operations that reject (store unreachable and the like), and what the schema's
  string cast makes of a value that is not a string.
\<close>

record env =
  now :: int
  genHash :: "string \<Rightarrow> string option"
  compare :: "string \<Rightarrow> string \<Rightarrow> bool option"
  sign :: "object_id \<Rightarrow> role \<Rightarrow> string \<Rightarrow> string option"
  sendMail :: "string \<Rightarrow> object_id \<Rightarrow> string \<Rightarrow> bool"
  newId :: object_id
  rejects :: "db_op \<Rightarrow> bool"
  castString :: "string \<Rightarrow> string + string"

text \<open>
  What a request can change: the collection of users, the messages handed to the mail
  transport, and the lines written with \<^verbatim>\<open>console.error\<close>.
\<close>

record state =
  users :: "user list"
  outbox :: "(string \<times> object_id \<times> string) list"
  console :: "string list"

definition logged :: "string \<Rightarrow> state \<Rightarrow> state" where
  "logged line st = st \<lparr> console := console st @ [line] \<rparr>"

definition findById :: "user list \<Rightarrow> object_id \<Rightarrow> user option" where
  "findById us i = find (\<lambda>u. oid u = i) us"

definition findOne_email :: "user list \<Rightarrow> string \<Rightarrow> user option" where
  \<comment> \<open>\<^verbatim>\<open>User.findOne({ email: ... })\<close>\<close>
  "findOne_email us e = find (\<lambda>u. email u = e) us"

fun deleteOne :: "user list \<Rightarrow> object_id \<Rightarrow> user list" where
  "deleteOne [] i = []"
| "deleteOne (u # us) i = (if oid u = i then us else u # deleteOne us i)"

definition save :: "user \<Rightarrow> user list \<Rightarrow> user list" where
  "save doc us = map (\<lambda>u. if oid u = oid doc then doc else u) us"

definition is_space :: "char \<Rightarrow> bool" where
  \<comment> \<open>the white space and line terminators of JavaScript below 256\<close>
  "is_space c =
     (c \<in> set [CHR 0x09, CHR 0x0A, CHR 0x0B, CHR 0x0C, CHR 0x0D, CHR 0x20, CHR 0xA0])"

definition trim :: "string \<Rightarrow> string" where
  "trim s = rev (dropWhile is_space (rev (dropWhile is_space s)))"

definition required_message :: "string \<Rightarrow> string" where
  \<comment> \<open>the message of the schema's \<^verbatim>\<open>required\<close> validator\<close>
  "required_message path = ''Path `'' @ path @ ''` is required.''"

definition required :: "string \<Rightarrow> string \<Rightarrow> string list" where
  "required path v = (if v = [] then [required_message path] else [])"

text \<open>
  \<^verbatim>\<open>User.create\<close>: the schema's setters (\<^verbatim>\<open>trim\<close>, \<^verbatim>\<open>lowercase\<close>, the string cast), its
  \<^verbatim>\<open>required\<close> validators, then the insert with the unique indexes on \<^verbatim>\<open>_id\<close>,
  \<^verbatim>\<open>email\<close> and (sparse) \<^verbatim>\<open>studentId\<close>; a violated index is reported with its key.
  \<^verbatim>\<open>timestamps\<close> sets \<^verbatim>\<open>createdAt\<close>.
\<close>

definition cast_college :: "env \<Rightarrow> string property \<Rightarrow> string + string" where
  \<comment> \<open>the schema's string cast of \<^verbatim>\<open>college\<close>: \<open>Inl\<close> is the message of a failed cast\<close>
  "cast_college e v =
     (case v of Own s \<Rightarrow> Inr s | Inherited n \<Rightarrow> castString e n | Undefined \<Rightarrow> Inr [])"

definition new_document :: "env \<Rightarrow> user_payload \<Rightarrow> user" where
  "new_document e p =
     \<lparr> oid = newId e,
       fullName = trim (p_fullName p),
       email = toLowerCase (p_email p),
       studentId = p_studentId p,
       password = p_password p,
       role = p_role p,
       university = p_university p,
       college = (case cast_college e (p_college p) of Inr s \<Rightarrow> s | Inl _ \<Rightarrow> []),
       isEmailVerified = p_isEmailVerified p,
       createdAt = Some (now e) \<rparr>"

definition validation_failures :: "env \<Rightarrow> user_payload \<Rightarrow> string list" where
  "validation_failures e p =
     required ''fullName'' (trim (p_fullName p))
     @ required ''email'' (toLowerCase (p_email p))
     @ required ''password'' (p_password p)
     @ required ''university'' (p_university p)
     @ (case cast_college e (p_college p) of Inl m \<Rightarrow> [m] | Inr s \<Rightarrow> required ''college'' s)"

definition violated_index :: "user list \<Rightarrow> user \<Rightarrow> string option" where
  \<comment> \<open>the key of the first unique index that already holds the document's value\<close>
  "violated_index us doc =
     (if list_ex (\<lambda>u. oid u = oid doc) us then Some ''_id''
      else if list_ex (\<lambda>u. email u = email doc) us then Some ''email''
      else if studentId doc \<noteq> None \<and> list_ex (\<lambda>u. studentId u = studentId doc) us
        then Some ''studentId''
      else None)"

definition User_create :: "env \<Rightarrow> user list \<Rightarrow> user_payload \<Rightarrow> db_error + user" where
  "User_create e us p =
     (if validation_failures e p \<noteq> [] then Inl (ValidationError (validation_failures e p))
      else if rejects e Create then Inl OtherError
      else case violated_index us (new_document e p) of
             Some key \<Rightarrow> Inl (DuplicateKey key)
           | None \<Rightarrow> Inr (new_document e p))"

section \<open>Responses\<close>

record json_user =
  j_id :: object_id
  j_fullName :: string
  j_email :: string
  j_studentId :: "string option"
  j_role :: role
  j_university :: string
  j_college :: string
  j_isEmailVerified :: "bool option"

record requirement_report =
  minLength :: bool
  hasLetters :: bool
  hasNumbers :: bool
  hasSpecialChar :: bool

datatype payload =
    NoPayload
  | Report requirement_report
  | Details string
  | DetailList "string list"
  | Field string
  | UserOnly json_user
  | TokenAndUser string json_user

record response =
  status :: nat
  code :: "string option"
  message :: string
  body :: payload

definition json :: "nat \<Rightarrow> string \<Rightarrow> string \<Rightarrow> payload \<Rightarrow> response" where
  "json s c m b = \<lparr> status = s, code = Some c, message = m, body = b \<rparr>"

text \<open>The pages and the redirect of \<^verbatim>\<open>GET /verify-email/:uid\<close> (headings without the emoji).\<close>

datatype page =
    Html nat string string
  | Redirect string string json_user

definition projection :: "user \<Rightarrow> json_user" where
  \<comment> \<open>id, fullName, email, role, university, college\<close>
  "projection u =
     \<lparr> j_id = oid u, j_fullName = fullName u, j_email = email u, j_studentId = None,
       j_role = role u, j_university = university u, j_college = college u,
       j_isEmailVerified = None \<rparr>"

definition with_studentId :: "user \<Rightarrow> json_user \<Rightarrow> json_user" where
  "with_studentId u j = j \<lparr> j_studentId := studentId u \<rparr>"

definition with_verified :: "user \<Rightarrow> json_user \<Rightarrow> json_user" where
  "with_verified u j = j \<lparr> j_isEmailVerified := Some (isEmailVerified u) \<rparr>"

section \<open>Registration\<close>

record register_body =
  rb_fullName :: string
  rb_email :: string
  rb_password :: string
  rb_confirmPassword :: string

text \<open>
  The request bodies hold strings; an absent field and the empty string are both falsy and
  take the same branch, so a field is a \<open>string\<close> and absent is \<open>[]\<close>.
\<close>

definition internal_error :: string where
  "internal_error = ''INTERNAL_SERVER_ERROR''"

definition weak_password :: "requirements \<Rightarrow> response" where
  "weak_password r =
     json 400 ''WEAK_PASSWORD'' ''Password does not meet security requirements''
       (Report \<lparr> minLength = req_length r, hasLetters = hasLetter r,
                  hasNumbers = hasDigit r, hasSpecialChar = hasSpecial r \<rparr>)"

definition register_failed :: "db_error \<Rightarrow> response" where
  \<comment> \<open>the outer \<^verbatim>\<open>catch\<close> of \<^verbatim>\<open>POST /register\<close>\<close>
  "register_failed err =
     (case err of
        DuplicateKey field \<Rightarrow>
          json 409 ''DUPLICATE_ENTRY'' (''Account with this '' @ field @ '' already exists'')
            (Field field)
      | ValidationError messages \<Rightarrow>
          json 400 ''VALIDATION_ERROR'' ''Validation failed'' (DetailList messages)
      | OtherError \<Rightarrow>
          json 500 internal_error ''An unexpected error occurred during registration''
            NoPayload)"

definition registration_log :: string where
  "registration_log = ''[ERROR] Registration process failed:''"

definition mail_warning :: string where
  "mail_warning = ''[WARNING] Failed to send verification email:''"

definition sendVerificationEmail :: "env \<Rightarrow> string \<Rightarrow> object_id \<Rightarrow> string \<Rightarrow> state \<Rightarrow> state" where
  \<comment> \<open>with the \<^verbatim>\<open>try\<close>/\<^verbatim>\<open>catch\<close> around the call: a rejected dispatch is logged\<close>
  "sendVerificationEmail e to userId userName st =
     (if sendMail e to userId userName
      then st \<lparr> outbox := outbox st @ [(to, userId, userName)] \<rparr>
      else logged mail_warning st)"

definition display_name :: "string \<Rightarrow> email_data \<Rightarrow> string" where
  \<comment> \<open>an instructor's name gets the prefix \<^verbatim>\<open>Dr. \<close> unless it starts with it in some case\<close>
  "display_name full emailData =
     (if ed_role emailData = instructor \<and> \<not> startsWith (toLowerCase full) ''dr.''
      then ''Dr. '' @ full
      else full)"

definition user_payload :: "string \<Rightarrow> string \<Rightarrow> string \<Rightarrow> email_data \<Rightarrow> user_payload" where
  \<comment> \<open>\<^verbatim>\<open>userPayload\<close>; \<^verbatim>\<open>studentId\<close> is added for a student with a non-empty id only\<close>
  "user_payload displayName emailLower hashedPassword emailData =
     \<lparr> p_fullName = displayName,
       p_email = emailLower,
       p_password = hashedPassword,
       p_role = ed_role emailData,
       p_university = ed_university emailData,
       p_college = ed_faculty emailData,
       p_isEmailVerified = False,
       p_studentId =
         (case ed_studentId emailData of
            None \<Rightarrow> None
          | Some sid \<Rightarrow> if ed_role emailData = student \<and> sid \<noteq> [] then Some sid else None) \<rparr>"

definition validated :: "directory \<Rightarrow> register_body \<Rightarrow> response + email_data" where
  \<comment> \<open>the checks of \<^verbatim>\<open>POST /register\<close> that come before anything is hashed or stored\<close>
  "validated dir b =
     (if rb_fullName b = [] \<or> rb_email b = [] \<or> rb_password b = [] \<or> rb_confirmPassword b = []
      then Inl (json 400 ''MISSING_FIELDS'' ''Invalid request: all fields are required'' NoPayload)
      else if rb_password b \<noteq> rb_confirmPassword b
      then Inl (json 400 ''PASSWORD_MISMATCH'' ''Password confirmation does not match'' NoPayload)
      else
        let strength = validatePasswordStrength (rb_password b)
        in if \<not> isStrong strength then Inl (weak_password (requirements strength))
           else case extractUserDataFromEmail dir (toLowerCase (rb_email b)) of
                  Inl emailError \<Rightarrow>
                    Inl (json 400 ''INVALID_EMAIL_FORMAT'' ''Invalid email format''
                           (Details emailError))
                | Inr emailData \<Rightarrow> Inr emailData)"

definition registration_success :: "user \<Rightarrow> response" where
  "registration_success newUser =
     json 201 ''REGISTRATION_SUCCESS_VERIFY_EMAIL''
       ''Account created successfully. Please verify your email to activate your account.''
       (UserOnly (with_verified newUser (with_studentId newUser (projection newUser))))"

definition register :: "env \<Rightarrow> directory \<Rightarrow> state \<Rightarrow> register_body \<Rightarrow> response \<times> state" where
  \<comment> \<open>\<^verbatim>\<open>POST /register\<close>\<close>
  "register e dir st b =
     (case validated dir b of
        Inl refusal \<Rightarrow> (refusal, st)
      | Inr emailData \<Rightarrow>
          let emailLower = toLowerCase (rb_email b);
              displayName = display_name (rb_fullName b) emailData
          in case genHash e (rb_password b) of
               None \<Rightarrow> (register_failed OtherError, logged registration_log st)
             | Some hashedPassword \<Rightarrow>
                 (case User_create e (users st)
                         (user_payload displayName emailLower hashedPassword emailData) of
                    Inl err \<Rightarrow> (register_failed err, logged registration_log st)
                  | Inr newUser \<Rightarrow>
                      (registration_success newUser,
                       sendVerificationEmail e emailLower (oid newUser) displayName
                         (st \<lparr> users := users st @ [newUser] \<rparr>))))"

section \<open>Email verification\<close>

datatype uid_param = NoUid | Malformed | Uid object_id

text \<open>
  \<open>NoUid\<close> is an absent or empty \<^verbatim>\<open>uid\<close>; \<open>Malformed\<close> is a string that is no
  \<^verbatim>\<open>ObjectId\<close>, on which \<^verbatim>\<open>findById\<close> rejects with a cast error.
\<close>

definition maxAgeMs :: int where
  "maxAgeMs = 24 * 60 * 60 * 1000"

definition ageMs :: "env \<Rightarrow> user \<Rightarrow> int" where
  \<comment> \<open>\<^verbatim>\<open>Date.now() - new Date(user.createdAt || user._id.getTimestamp()).getTime()\<close>\<close>
  "ageMs e u = now e - (case createdAt u of Some t \<Rightarrow> t | None \<Rightarrow> getTimestamp (oid u))"

definition delete_warning :: string where
  "delete_warning = ''[WARNING] Failed to delete expired unverified user:''"

definition remove_expired :: "env \<Rightarrow> user \<Rightarrow> state \<Rightarrow> state" where
  \<comment> \<open>\<^verbatim>\<open>User.deleteOne({ _id: user._id })\<close> inside its \<^verbatim>\<open>try\<close>/\<^verbatim>\<open>catch\<close>\<close>
  "remove_expired e u st =
     (if rejects e DeleteOne then logged delete_warning st
      else st \<lparr> users := deleteOne (users st) (oid u) \<rparr>)"

definition verification_log :: string where
  "verification_log = ''[ERROR] Email verification failed:''"

definition verification_failed :: response where
  "verification_failed =
     json 500 internal_error ''An unexpected error occurred during email verification'' NoPayload"

definition token_expired :: response where
  "token_expired =
     json 400 ''TOKEN_EXPIRED_ACCOUNT_REMOVED''
       ''Verification link has expired and the unverified account has been removed. Please register again.''
       NoPayload"

definition verify_email :: "env \<Rightarrow> state \<Rightarrow> uid_param \<Rightarrow> response \<times> state" where
  \<comment> \<open>\<^verbatim>\<open>POST /verify-email\<close>\<close>
  "verify_email e st uid =
     (case uid of
        NoUid \<Rightarrow> (json 400 ''MISSING_UID'' ''Verification uid is required'' NoPayload, st)
      | Malformed \<Rightarrow> (verification_failed, logged verification_log st)
      | Uid i \<Rightarrow>
          if rejects e FindById then (verification_failed, logged verification_log st)
          else case findById (users st) i of
            None \<Rightarrow>
              (json 400 ''INVALID_UID'' ''Invalid verification link or user not found''
                 NoPayload, st)
          | Some u \<Rightarrow>
              if isEmailVerified u
              then (json 400 ''ALREADY_VERIFIED'' ''Email is already verified'' NoPayload, st)
              else if ageMs e u > maxAgeMs
              then (token_expired, remove_expired e u st)
              else if rejects e Save then (verification_failed, logged verification_log st)
              else
                let verified = u \<lparr> isEmailVerified := True \<rparr>
                in (json 200 ''EMAIL_VERIFIED_SUCCESS''
                      ''Email verified successfully. You can now login.''
                      (UserOnly (with_verified verified (projection verified))),
                    st \<lparr> users := save verified (users st) \<rparr>))"

definition dashboardUrl :: "user \<Rightarrow> string" where
  "dashboardUrl u =
     (if role u = student
      then ''http://127.0.0.1:5501/frontend/html/student-profile.html''
      else ''http://127.0.0.1:5501/frontend/html/instructor-profile.html'')"

definition direct_log :: string where
  "direct_log = ''[ERROR] Direct email verification failed:''"

definition direct_failed :: page where
  "direct_failed = Html 500 ''Verification Failed'' ''An error occurred.''"

definition link_expired :: page where
  "link_expired =
     Html 400 ''Verification Link Expired''
       ''The verification link has expired. Please register again.''"

definition login_redirect :: "env \<Rightarrow> user \<Rightarrow> state \<Rightarrow> page \<times> state" where
  \<comment> \<open>sign a token and redirect to the dashboard with the token and the user\<close>
  "login_redirect e u st =
     (case sign e (oid u) (role u) (email u) of
        None \<Rightarrow> (direct_failed, logged direct_log st)
      | Some token \<Rightarrow>
          (Redirect (dashboardUrl u) token (with_studentId u (projection u)), st))"

definition verify_email_link :: "env \<Rightarrow> state \<Rightarrow> uid_param \<Rightarrow> page \<times> state" where
  \<comment> \<open>\<^verbatim>\<open>GET /verify-email/:uid\<close>\<close>
  "verify_email_link e st uid =
     (case uid of
        NoUid \<Rightarrow> (Html 400 ''Invalid Verification Link'' ''User ID is missing.'', st)
      | Malformed \<Rightarrow> (direct_failed, logged direct_log st)
      | Uid i \<Rightarrow>
          if rejects e FindById then (direct_failed, logged direct_log st)
          else case findById (users st) i of
            None \<Rightarrow> (Html 400 ''Invalid Verification Link'' ''User not found.'', st)
          | Some u \<Rightarrow>
              if isEmailVerified u then login_redirect e u st
              else if ageMs e u > maxAgeMs
              then (link_expired, remove_expired e u st)
              else if rejects e Save then (direct_failed, logged direct_log st)
              else
                let verified = u \<lparr> isEmailVerified := True \<rparr>
                in login_redirect e verified (st \<lparr> users := save verified (users st) \<rparr>))"

section \<open>Login\<close>

record login_body =
  lb_email :: string
  lb_password :: string

definition login_log :: string where
  "login_log = ''[ERROR] Login failed:''"

definition login_failed :: response where
  "login_failed = json 500 internal_error ''Internal server error'' NoPayload"

definition invalid_credentials :: response where
  "invalid_credentials = json 401 ''INVALID_CREDENTIALS'' ''Invalid email or password'' NoPayload"

definition email_not_verified :: response where
  "email_not_verified = json 403 ''EMAIL_NOT_VERIFIED'' ''Please verify your email first'' NoPayload"

definition login :: "env \<Rightarrow> state \<Rightarrow> login_body \<Rightarrow> response \<times> state" where
  \<comment> \<open>\<^verbatim>\<open>POST /login\<close>\<close>
  "login e st b =
     (if lb_email b = [] \<or> lb_password b = []
      then (json 400 ''MISSING_FIELDS'' ''Email and password are required'' NoPayload, st)
      else
        let emailLower = toLowerCase (lb_email b)
        in if rejects e FindOne then (login_failed, logged login_log st)
           else case findOne_email (users st) emailLower of
             None \<Rightarrow> (invalid_credentials, st)
           | Some u \<Rightarrow>
               if \<not> isEmailVerified u then (email_not_verified, st)
               else case compare e (lb_password b) (password u) of
                 None \<Rightarrow> (login_failed, logged login_log st)
               | Some isMatch \<Rightarrow>
                   if \<not> isMatch then (invalid_credentials, st)
                   else case sign e (oid u) (role u) (email u) of
                     None \<Rightarrow> (login_failed, logged login_log st)
                   | Some token \<Rightarrow>
                       (\<lparr> status = 200, code = None, message = ''Login successful'',
                          body = TokenAndUser token (with_studentId u (projection u)) \<rparr>,
                        st))"

section \<open>Sample data\<close>

text \<open>One environment in which every collaborator answers, and one instructor's account.\<close>

definition sample_env :: env where
  "sample_env =
     \<lparr> now = 0,
       genHash = (\<lambda>p. Some (''hash:'' @ p)),
       compare = (\<lambda>p h. Some (h = ''hash:'' @ p)),
       sign = (\<lambda>i r a. Some (''token:'' @ a)),
       sendMail = (\<lambda>to i n. True),
       newId = 2,
       rejects = (\<lambda>operation. False),
       castString = (\<lambda>n. Inl ''Cast to string failed'') \<rparr>"

definition sample_user :: user where
  "sample_user =
     \<lparr> oid = 1, fullName = ''Dr. Dina'', email = ''dina@sci.cu.edu.eg'', studentId = None,
       password = ''hash:abc123!'', role = instructor, university = ''Cairo University'',
       college = ''Faculty of Science'', isEmailVerified = False, createdAt = Some 0 \<rparr>"

definition sample_state :: state where
  "sample_state = \<lparr> users = [sample_user], outbox = [], console = [] \<rparr>"

definition verified_state :: state where
  "verified_state =
     \<lparr> users = [sample_user \<lparr> isEmailVerified := True \<rparr>], outbox = [], console = [] \<rparr>"

definition empty_state :: state where
  "empty_state = \<lparr> users = [], outbox = [], console = [] \<rparr>"

definition dina :: email_data where
  "dina = \<lparr> ed_university = ''Cairo University'', ed_faculty = Own ''Faculty of Science'',
            ed_role = instructor, ed_studentId = None \<rparr>"

definition dina_body :: register_body where
  "dina_body = \<lparr> rb_fullName = ''Dina'', rb_email = ''Dina@Sci.cu.edu.eg'',
     rb_password = ''abc123!'', rb_confirmPassword = ''abc123!'' \<rparr>"

definition dina_account :: user where
  "dina_account = sample_user \<lparr> oid := 2 \<rparr>"

section \<open>Evaluation rules\<close>

lemmas char_defs = is_local_char_def is_letter_def is_digit_def ascii_lower_def ascii_upper_def
  digits_def fold_ascii_def lower_char_def latin1_upper_def latin1_lower_def toLowerCase_def
  special_chars_def is_space_def

lemmas resolver_defs = match_email_def extractUserDataFromEmail_def dot_free_def
  get_property_def Universities_def cairo_university_def cairo_subdomains_def
  truthy_def all_digits_def substr_def resolved_def object_prototype_names_def

lemmas handler_defs = login_def verify_email_def verify_email_link_def register_def validated_def
  json_def logged_def findById_def findOne_email_def save_def remove_expired_def ageMs_def
  maxAgeMs_def getTimestamp_def projection_def with_studentId_def with_verified_def
  invalid_credentials_def email_not_verified_def login_failed_def token_expired_def
  link_expired_def login_redirect_def dashboardUrl_def direct_failed_def verification_failed_def

lemmas sample_defs = sample_env_def sample_user_def sample_state_def verified_state_def
  empty_state_def

lemmas register_defs = display_name_def user_payload_def User_create_def weak_password_def
  register_failed_def registration_success_def sendVerificationEmail_def trim_def
  required_def required_message_def startsWith_def registration_log_def mail_warning_def
  internal_error_def cast_college_def new_document_def validation_failures_def
  violated_index_def

section \<open>The password policy\<close>

text \<open>
  C8. A password is strong exactly when it has at least six characters, a letter of a-z or
  A-Z, a digit and a character of the symbol class; the four statuses are returned whatever
  the verdict, and a registration refused for a weak password carries them.
\<close>

theorem validatePasswordStrength_policy:
  "isStrong (validatePasswordStrength p) =
     (6 \<le> length p
      \<and> (\<exists>c \<in> set p. c \<in> set ''abcdefghijklmnopqrstuvwxyzABCDEFGHIJKLMNOPQRSTUVWXYZ'')
      \<and> (\<exists>c \<in> set p. c \<in> set ''0123456789'')
      \<and> (\<exists>c \<in> set p. c \<in> set special_chars))
   \<and> requirements (validatePasswordStrength p) =
       \<lparr> req_length = (6 \<le> length p),
         hasLetter = (\<exists>c \<in> set p. c \<in> set ''abcdefghijklmnopqrstuvwxyzABCDEFGHIJKLMNOPQRSTUVWXYZ''),
         hasDigit = (\<exists>c \<in> set p. c \<in> set ''0123456789''),
         hasSpecial = (\<exists>c \<in> set p. c \<in> set special_chars) \<rparr>
   \<and> (rb_fullName b \<noteq> [] \<and> rb_email b \<noteq> [] \<and> rb_password b = p \<and> rb_confirmPassword b = p
        \<and> p \<noteq> [] \<and> \<not> isStrong (validatePasswordStrength p)
       \<longrightarrow> register e dir st b =
             (json 400 ''WEAK_PASSWORD'' ''Password does not meet security requirements''
                (Report \<lparr> minLength = req_length (requirements (validatePasswordStrength p)),
                          hasLetters = hasLetter (requirements (validatePasswordStrength p)),
                          hasNumbers = hasDigit (requirements (validatePasswordStrength p)),
                          hasSpecialChar = hasSpecial (requirements (validatePasswordStrength p)) \<rparr>),
              st))"
proof -
  have l: "list_ex is_letter p =
      (\<exists>c \<in> set p. c \<in> set ''abcdefghijklmnopqrstuvwxyzABCDEFGHIJKLMNOPQRSTUVWXYZ'')"
    unfolding list_ex_iff is_letter_def ascii_lower_def ascii_upper_def by auto
  have d: "list_ex is_digit p = (\<exists>c \<in> set p. c \<in> set ''0123456789'')"
    unfolding list_ex_iff is_digit_def digits_def ..
  have s: "list_ex (\<lambda>c. c \<in> set special_chars) p = (\<exists>c \<in> set p. c \<in> set special_chars)"
    unfolding list_ex_iff ..
  have verdict: "isStrong (validatePasswordStrength p) =
     (6 \<le> length p
      \<and> (\<exists>c \<in> set p. c \<in> set ''abcdefghijklmnopqrstuvwxyzABCDEFGHIJKLMNOPQRSTUVWXYZ'')
      \<and> (\<exists>c \<in> set p. c \<in> set ''0123456789'')
      \<and> (\<exists>c \<in> set p. c \<in> set special_chars))"
    unfolding validatePasswordStrength_def Let_def
    by (simp add: requirement_values_def l d s)
  have report: "requirements (validatePasswordStrength p) =
       \<lparr> req_length = (6 \<le> length p),
         hasLetter = (\<exists>c \<in> set p. c \<in> set ''abcdefghijklmnopqrstuvwxyzABCDEFGHIJKLMNOPQRSTUVWXYZ''),
         hasDigit = (\<exists>c \<in> set p. c \<in> set ''0123456789''),
         hasSpecial = (\<exists>c \<in> set p. c \<in> set special_chars) \<rparr>"
    unfolding validatePasswordStrength_def Let_def
    by (simp add: l d s)
  have refusal: "register e dir st b =
             (json 400 ''WEAK_PASSWORD'' ''Password does not meet security requirements''
                (Report \<lparr> minLength = req_length (requirements (validatePasswordStrength p)),
                          hasLetters = hasLetter (requirements (validatePasswordStrength p)),
                          hasNumbers = hasDigit (requirements (validatePasswordStrength p)),
                          hasSpecialChar = hasSpecial (requirements (validatePasswordStrength p)) \<rparr>),
              st)"
    if "rb_fullName b \<noteq> [] \<and> rb_email b \<noteq> [] \<and> rb_password b = p \<and> rb_confirmPassword b = p
        \<and> p \<noteq> [] \<and> \<not> isStrong (validatePasswordStrength p)"
    using that by (simp add: register_def validated_def weak_password_def Let_def)
  show ?thesis using verdict report refusal by (intro conjI impI)
qed

theorem validatePasswordStrength_policy_witness:
  "validatePasswordStrength ''abc12'' =
     \<lparr> isStrong = False,
       requirements = \<lparr> req_length = False, hasLetter = True, hasDigit = True,
                        hasSpecial = False \<rparr> \<rparr>
   \<and> register sample_env Universities empty_state
        \<lparr> rb_fullName = ''Dina'', rb_email = ''dina@sci.cu.edu.eg'', rb_password = ''abc12'',
          rb_confirmPassword = ''abc12'' \<rparr> =
       (json 400 ''WEAK_PASSWORD'' ''Password does not meet security requirements''
          (Report \<lparr> minLength = False, hasLetters = True, hasNumbers = True,
                    hasSpecialChar = False \<rparr>),
        empty_state)"
proof -
  have v: "validatePasswordStrength ''abc12'' =
     \<lparr> isStrong = False,
       requirements = \<lparr> req_length = False, hasLetter = True, hasDigit = True,
                        hasSpecial = False \<rparr> \<rparr>"
    by (simp add: validatePasswordStrength_def requirement_values_def char_defs)
  have h: "rb_fullName \<lparr> rb_fullName = ''Dina'', rb_email = ''dina@sci.cu.edu.eg'',
              rb_password = ''abc12'', rb_confirmPassword = ''abc12'' \<rparr> \<noteq> []
      \<and> rb_email \<lparr> rb_fullName = ''Dina'', rb_email = ''dina@sci.cu.edu.eg'',
              rb_password = ''abc12'', rb_confirmPassword = ''abc12'' \<rparr> \<noteq> []
      \<and> rb_password \<lparr> rb_fullName = ''Dina'', rb_email = ''dina@sci.cu.edu.eg'',
              rb_password = ''abc12'', rb_confirmPassword = ''abc12'' \<rparr> = ''abc12''
      \<and> rb_confirmPassword \<lparr> rb_fullName = ''Dina'', rb_email = ''dina@sci.cu.edu.eg'',
              rb_password = ''abc12'', rb_confirmPassword = ''abc12'' \<rparr> = ''abc12''
      \<and> ''abc12'' \<noteq> [] \<and> \<not> isStrong (validatePasswordStrength ''abc12'')"
    by (simp add: v)
  show ?thesis
    using validatePasswordStrength_policy [where p = "''abc12''" and e = sample_env
        and dir = Universities and st = empty_state,
        THEN conjunct2, THEN conjunct2, THEN mp, OF h]
    by (simp add: v)
qed

section \<open>The email resolver\<close>

text \<open>Lower-casing and the case-insensitive comparison agree on the characters of the domain.\<close>

lemma lower_char_alt:
  "lower_char c =
     (case map_of (zip ascii_upper ascii_lower) c of
        Some l \<Rightarrow> l
      | None \<Rightarrow> (case map_of (zip latin1_upper latin1_lower) c of Some l \<Rightarrow> l | None \<Rightarrow> c))"
proof -
  have len: "length ascii_upper = length ascii_lower"
    by (simp add: ascii_upper_def ascii_lower_def)
  show ?thesis
    unfolding lower_char_def zip_append [OF len] map_of_append map_add_def
    by (simp split: option.splits)
qed

lemma lower_char_plain:
  assumes "c \<in> set ''.cduegst''"
  shows "lower_char c = c"
proof -
  have "list_all (\<lambda>c. lower_char c = c) ''.cduegst''"
    by (simp add: lower_char_def ascii_upper_def ascii_lower_def latin1_upper_def latin1_lower_def)
  then show ?thesis using assms unfolding list_all_iff by blast
qed

lemma fold_ascii_lower:
  assumes "fold_ascii c = d" and "d \<in> set ''.cduegst''"
  shows "lower_char c = d"
proof (cases "map_of (zip ascii_upper ascii_lower) c")
  case None
  then have "c = d" using assms(1) by (simp add: fold_ascii_def)
  then show ?thesis using assms(2) lower_char_plain by blast
next
  case (Some l)
  then show ?thesis using assms(1) by (simp add: fold_ascii_def lower_char_alt)
qed

lemma fold_ending_lower:
  assumes "map fold_ascii ending = ''.cu.edu.eg''"
  shows "toLowerCase (drop 1 ending) = ''cu.edu.eg''"
proof -
  have "\<forall>c \<in> set ending. lower_char c = fold_ascii c"
  proof
    fix c assume "c \<in> set ending"
    then have "fold_ascii c \<in> set (map fold_ascii ending)" by simp
    then have "fold_ascii c \<in> set ''.cduegst''" unfolding assms by auto
    then show "lower_char c = fold_ascii c" using fold_ascii_lower by blast
  qed
  then have "map lower_char ending = map fold_ascii ending" by simp
  then have "toLowerCase ending = ''.cu.edu.eg''" by (simp add: toLowerCase_def assms)
  then have "drop 1 (toLowerCase ending) = ''cu.edu.eg''" by simp
  then show ?thesis by (simp add: toLowerCase_def drop_map)
qed

text \<open>What the pattern accepts among the addresses with a well-formed local part.\<close>

lemma match_email_form:
  assumes "emailPrefix \<noteq> []" and "list_all is_local_char emailPrefix"
    and "length ending = 10"
  shows "match_email (emailPrefix @ ''@'' @ middle @ ending) =
     (if map fold_ascii ending \<noteq> ''.cu.edu.eg'' then None
      else if map fold_ascii (take 4 middle) = ''std.'' \<and> dot_free (drop 4 middle)
        then Some (emailPrefix, True, drop 4 middle, drop 1 ending)
      else if dot_free middle then Some (emailPrefix, False, middle, drop 1 ending)
      else None)"
proof -
  have at: "\<not> is_local_char CHR ''@''"
    by (simp add: is_local_char_def is_letter_def is_digit_def ascii_lower_def ascii_upper_def digits_def)
  have all: "\<forall>c \<in> set emailPrefix. is_local_char c"
    using assms(2) by (simp add: list_all_iff)
  have tw: "takeWhile is_local_char (emailPrefix @ CHR ''@'' # middle @ ending) = emailPrefix"
    using at all by (simp add: takeWhile_tail)
  have dw: "dropWhile is_local_char (emailPrefix @ CHR ''@'' # middle @ ending) = CHR ''@'' # middle @ ending"
    using at all by (simp add: dropWhile_append3)
  have ap: "emailPrefix @ ''@'' @ middle @ ending = emailPrefix @ CHR ''@'' # middle @ ending"
    by simp
  have tk: "take (length (middle @ ending) - 10) (middle @ ending) = middle"
    using assms(3) by simp
  have dr: "drop (length (middle @ ending) - 10) (middle @ ending) = ending"
    using assms(3) by simp
  have ln: "\<not> length (middle @ ending) < 10"
    using assms(3) by simp
  show ?thesis
    unfolding match_email_def Let_def ap tw dw list.case tk dr
    using assms(1) ln by (simp only: if_False simp_thms not_not if_True split: if_splits)
qed

lemma match_email_domain:
  assumes "match_email address = Some (emailPrefix, isStudent, m3, m4)"
  shows "toLowerCase m4 = ''cu.edu.eg''"
proof (cases "dropWhile is_local_char address")
  case Nil
  show ?thesis using assms unfolding match_email_def Let_def Nil list.case
    by (simp only: if_cancel option.distinct)
next
  case (Cons c host)
  define ending where "ending = drop (length host - 10) host"
  define middle where "middle = take (length host - 10) host"
  have "map fold_ascii ending = ''.cu.edu.eg'' \<and> m4 = drop 1 ending"
    using assms unfolding match_email_def Let_def Cons list.case
      ending_def [symmetric] middle_def [symmetric]
    by (simp only: split: if_splits) (simp_all only: option.inject prod.inject simp_thms option.distinct)
  then have e: "map fold_ascii ending = ''.cu.edu.eg''" and m: "m4 = drop 1 ending"
    by (rule conjunct1, rule conjunct2)
  show ?thesis unfolding m by (rule fold_ending_lower [OF e])
qed

lemma all_digits_iff:
  "all_digits n s = (length s = n \<and> set s \<subseteq> set ''0123456789'')"
  unfolding all_digits_def list_all_iff is_digit_def digits_def by blast

lemma extract_matched:
  assumes "match_email address = Some (emailPrefix, isStudent, m3, m4)"
  shows "extractUserDataFromEmail dir address =
     (case get_property dir ''cu.edu.eg'' of
        Undefined \<Rightarrow> Inl (unsupported_university_message ''cu.edu.eg'')
      | Inherited n \<Rightarrow> Inl (type_error_message (toLowerCase m3))
      | Own universityData \<Rightarrow>
          let faculty = get_property (subdomains universityData) (toLowerCase m3)
          in if truthy faculty
             then (if isStudent
                   then (if all_digits 9 emailPrefix
                         then Inr (resolved universityData faculty isStudent
                                     (Some (substr emailPrefix 2 7)))
                         else if all_digits 7 emailPrefix
                         then Inr (resolved universityData faculty isStudent (Some emailPrefix))
                         else Inl student_prefix_message)
                   else Inr (resolved universityData faculty isStudent None))
             else Inl (unsupported_faculty_message (toLowerCase m3) (name universityData)))"
  unfolding extractUserDataFromEmail_def assms option.case prod.case Let_def
    match_email_domain [OF assms] ..

lemma cairo_not_builtin: "''cu.edu.eg'' \<notin> set object_prototype_names"
  by (simp add: object_prototype_names_def)

lemma get_property_directory:
  "get_property dir ''cu.edu.eg'' = (case dir ''cu.edu.eg'' of None \<Rightarrow> Undefined | Some u \<Rightarrow> Own u)"
  unfolding get_property_def using cairo_not_builtin by (simp split: option.splits)

text \<open>
  C5. A student address is a non-empty local part of class characters, the at sign, the
  marker \<^verbatim>\<open>std.\<close> (in any case), a faculty and the domain (in any case), the faculty
  listed under the domain with a non-empty name. If the local part is nine digits the
  student id is its seven characters from offset 2; otherwise, if it is seven digits, the
  local part itself; otherwise the resolver fails with the student-prefix error.
\<close>

theorem extractUserDataFromEmail_studentId:
  assumes "emailPrefix \<noteq> []" and "list_all is_local_char emailPrefix"
    and "map fold_ascii marker = ''std.''" and "dot_free sub"
    and "map fold_ascii ending = ''.cu.edu.eg''"
    and "dir ''cu.edu.eg'' = Some u" and "subdomains u (toLowerCase sub) = Some fac"
    and "fac \<noteq> []"
  shows "extractUserDataFromEmail dir (emailPrefix @ ''@'' @ marker @ sub @ ending) =
     (if length emailPrefix = 9 \<and> set emailPrefix \<subseteq> set ''0123456789''
      then Inr \<lparr> ed_university = name u, ed_faculty = Own fac, ed_role = student,
                 ed_studentId = Some (take 7 (drop 2 emailPrefix)) \<rparr>
      else if length emailPrefix = 7 \<and> set emailPrefix \<subseteq> set ''0123456789''
      then Inr \<lparr> ed_university = name u, ed_faculty = Own fac, ed_role = student,
                 ed_studentId = Some emailPrefix \<rparr>
      else Inl student_prefix_message)"
proof -
  have lm: "length marker = 4"
    using arg_cong [OF assms(3), of length] by simp
  have le: "length ending = 10"
    using arg_cong [OF assms(5), of length] by simp
  have tk: "take 4 (marker @ sub) = marker" and dr: "drop 4 (marker @ sub) = sub"
    using lm by simp_all
  have "match_email (emailPrefix @ ''@'' @ (marker @ sub) @ ending) =
          Some (emailPrefix, True, sub, drop 1 ending)"
    unfolding match_email_form [OF assms(1,2) le] tk dr
    using assms(3,4,5) by (simp only: simp_thms if_True if_False not_True_eq_False)
  then have m: "match_email (emailPrefix @ ''@'' @ marker @ sub @ ending) =
          Some (emailPrefix, True, sub, drop 1 ending)"
    by (simp only: append_assoc)
  have fac: "get_property (subdomains u) (toLowerCase sub) = Own fac"
    by (simp add: get_property_def assms(7))
  show ?thesis
    unfolding extract_matched [OF m] get_property_directory assms(6) option.case
      property.case Let_def fac
    using assms(8)
    by (simp add: truthy_def resolved_def substr_def all_digits_iff)
qed

theorem extractUserDataFromEmail_studentId_witness:
  "extractUserDataFromEmail Universities ''123456789@std.sci.cu.edu.eg'' =
     Inr \<lparr> ed_university = ''Cairo University'', ed_faculty = Own ''Faculty of Science'',
           ed_role = student, ed_studentId = Some ''3456789'' \<rparr>
   \<and> extractUserDataFromEmail Universities ''1234567@std.eng.cu.edu.eg'' =
     Inr \<lparr> ed_university = ''Cairo University'', ed_faculty = Own ''Faculty of Engineering'',
           ed_role = student, ed_studentId = Some ''1234567'' \<rparr>
   \<and> extractUserDataFromEmail Universities ''12345678@std.eng.cu.edu.eg'' =
     Inl student_prefix_message"
proof -
  have h: "map fold_ascii ''std.'' = ''std.''" "map fold_ascii ''.cu.edu.eg'' = ''.cu.edu.eg''"
    "dot_free ''sci''" "dot_free ''eng''"
    "Universities ''cu.edu.eg'' = Some cairo_university"
    "subdomains cairo_university (toLowerCase ''sci'') = Some ''Faculty of Science''"
    "subdomains cairo_university (toLowerCase ''eng'') = Some ''Faculty of Engineering''"
    by (simp_all add: char_defs resolver_defs)
  have p: "list_all is_local_char ''123456789''" "list_all is_local_char ''1234567''"
    "list_all is_local_char ''12345678''"
    by (simp_all add: char_defs)
  have a: "extractUserDataFromEmail Universities ''123456789@std.sci.cu.edu.eg'' =
     Inr \<lparr> ed_university = ''Cairo University'', ed_faculty = Own ''Faculty of Science'',
           ed_role = student, ed_studentId = Some ''3456789'' \<rparr>"
    using extractUserDataFromEmail_studentId [where emailPrefix = "''123456789''"
        and dir = Universities and marker = "''std.''" and sub = "''sci''"
        and ending = "''.cu.edu.eg''", OF _ p(1) h(1) h(3) h(2) h(5) h(6)]
    by (simp add: cairo_university_def)
  have b: "extractUserDataFromEmail Universities ''1234567@std.eng.cu.edu.eg'' =
     Inr \<lparr> ed_university = ''Cairo University'', ed_faculty = Own ''Faculty of Engineering'',
           ed_role = student, ed_studentId = Some ''1234567'' \<rparr>"
    using extractUserDataFromEmail_studentId [where emailPrefix = "''1234567''"
        and dir = Universities and marker = "''std.''" and sub = "''eng''"
        and ending = "''.cu.edu.eg''", OF _ p(2) h(1) h(4) h(2) h(5) h(7)]
    by (simp add: cairo_university_def)
  have c: "extractUserDataFromEmail Universities ''12345678@std.eng.cu.edu.eg'' =
     Inl student_prefix_message"
    using extractUserDataFromEmail_studentId [where emailPrefix = "''12345678''"
        and dir = Universities and marker = "''std.''" and sub = "''eng''"
        and ending = "''.cu.edu.eg''", OF _ p(3) h(1) h(4) h(2) h(5) h(7)]
    by (simp add: cairo_university_def)
  show ?thesis using a b c by (intro conjI)
qed

lemma match_email_suffix:
  assumes "match_email address \<noteq> None"
  shows "suffix ''.cu.edu.eg'' (map fold_ascii address)"
proof -
  obtain emailPrefix isStudent m3 m4
    where m: "match_email address = Some (emailPrefix, isStudent, m3, m4)"
    using assms by (cases "match_email address") auto
  show ?thesis
  proof (cases "dropWhile is_local_char address")
    case Nil
    show ?thesis using m unfolding match_email_def Let_def Nil list.case
      by (simp only: if_cancel option.distinct)
  next
    case (Cons c host)
    define ending where "ending = drop (length host - 10) host"
    define middle where "middle = take (length host - 10) host"
    define before where "before = takeWhile is_local_char address"
    have "map fold_ascii ending = ''.cu.edu.eg'' \<and> m4 = drop 1 ending"
      using m unfolding match_email_def Let_def Cons list.case
        ending_def [symmetric] middle_def [symmetric]
      by (simp only: split: if_splits)
         (simp_all only: option.inject prod.inject simp_thms option.distinct)
    then have e: "map fold_ascii ending = ''.cu.edu.eg''"
      by (rule conjunct1)
    have "address = before @ c # middle @ ending"
      unfolding middle_def ending_def before_def append_take_drop_id Cons [symmetric]
      by (rule takeWhile_dropWhile_id [symmetric])
    then have "map fold_ascii address = map fold_ascii (before @ c # middle @ ending)"
      by (rule arg_cong)
    also have "\<dots> = map fold_ascii (before @ c # middle) @ map fold_ascii ending"
      by simp
    finally have "map fold_ascii address = map fold_ascii (before @ c # middle) @ ''.cu.edu.eg''"
      unfolding e .
    then show ?thesis by (rule suffixI)
  qed
qed

lemma messages_distinct:
  "invalid_format_message \<noteq> unsupported_university_message d"
  "invalid_format_message \<noteq> unsupported_faculty_message s n"
  "unsupported_university_message d \<noteq> unsupported_faculty_message s n"
  "student_prefix_message \<noteq> unsupported_university_message d"
  by (simp_all add: invalid_format_message_def unsupported_university_message_def
      unsupported_faculty_message_def student_prefix_message_def)

lemma shipped_directory_supported:
  "extractUserDataFromEmail Universities address \<noteq> Inl (unsupported_university_message d)"
proof (cases "match_email address")
  case None
  then show ?thesis
    using messages_distinct(1) [of d] by (simp add: extractUserDataFromEmail_def)
next
  case (Some m)
  obtain emailPrefix isStudent m3 m4 where m: "m = (emailPrefix, isStudent, m3, m4)"
    by (cases m) auto
  have g: "get_property Universities ''cu.edu.eg'' = Own cairo_university"
    by (simp add: get_property_directory Universities_def)
  show ?thesis
    unfolding extract_matched [OF Some [unfolded m]] g property.case Let_def
    using messages_distinct(3) [of d, THEN not_sym] messages_distinct(4) [of d]
    by (simp split: if_splits)
qed

text \<open>
  C2, as amended. An address that does not end with \<^verbatim>\<open>.cu.edu.eg\<close> (in any case), like
  every address the pattern rejects, fails with the invalid-format error. For an address
  the pattern accepts, the domain is \<^verbatim>\<open>cu.edu.eg\<close>; the resolver fails with the
  unsupported-university error when the directory has no entry for it, and with the
  unrecognized-faculty error when the directory has the entry and the lower-cased
  subdomain is neither listed there nor a name that every object inherits. With the
  directory as shipped the unsupported-university error never arises. The three messages
  differ pairwise.
\<close>

theorem resolver_failures:
  "(\<not> suffix ''.cu.edu.eg'' (map fold_ascii address) \<longrightarrow>
      extractUserDataFromEmail dir address = Inl invalid_format_message)
   \<and> (match_email address = None \<longrightarrow>
      extractUserDataFromEmail dir address = Inl invalid_format_message)
   \<and> (match_email address = Some (emailPrefix, isStudent, m3, m4) \<longrightarrow>
        toLowerCase m4 = ''cu.edu.eg''
        \<and> (dir ''cu.edu.eg'' = None \<longrightarrow>
             extractUserDataFromEmail dir address =
               Inl (unsupported_university_message ''cu.edu.eg''))
        \<and> (dir ''cu.edu.eg'' = Some u \<and> subdomains u (toLowerCase m3) = None
             \<and> toLowerCase m3 \<notin> set object_prototype_names \<longrightarrow>
             extractUserDataFromEmail dir address =
               Inl (unsupported_faculty_message (toLowerCase m3) (name u))))
   \<and> extractUserDataFromEmail Universities address \<noteq> Inl (unsupported_university_message d)
   \<and> invalid_format_message \<noteq> unsupported_university_message d
   \<and> invalid_format_message \<noteq> unsupported_faculty_message s n
   \<and> unsupported_university_message d \<noteq> unsupported_faculty_message s n"
proof (intro conjI impI)
  show "extractUserDataFromEmail Universities address \<noteq> Inl (unsupported_university_message d)"
    by (rule shipped_directory_supported)
next
  assume "match_email address = None"
  then show "extractUserDataFromEmail dir address = Inl invalid_format_message"
    by (simp add: extractUserDataFromEmail_def)
next
  assume "\<not> suffix ''.cu.edu.eg'' (map fold_ascii address)"
  then have "match_email address = None"
    using match_email_suffix [of address] by (cases "match_email address") simp_all
  then show "extractUserDataFromEmail dir address = Inl invalid_format_message"
    by (simp add: extractUserDataFromEmail_def)
next
  assume m: "match_email address = Some (emailPrefix, isStudent, m3, m4)"
  show "toLowerCase m4 = ''cu.edu.eg''"
    by (rule match_email_domain [OF m])
  {
    assume "dir ''cu.edu.eg'' = None"
    then show "extractUserDataFromEmail dir address =
        Inl (unsupported_university_message ''cu.edu.eg'')"
      unfolding extract_matched [OF m] get_property_directory by simp
  }
  {
    assume "dir ''cu.edu.eg'' = Some u \<and> subdomains u (toLowerCase m3) = None
        \<and> toLowerCase m3 \<notin> set object_prototype_names"
    then show "extractUserDataFromEmail dir address =
        Inl (unsupported_faculty_message (toLowerCase m3) (name u))"
      unfolding extract_matched [OF m] get_property_directory
      by (simp add: get_property_def truthy_def)
  }
qed (rule messages_distinct)+

text \<open>
  C2 as stated fails twice: an address of another university has the general shape and a
  domain that is no key of the directory, and is refused as an invalid format; and the
  subdomain \<^verbatim>\<open>constructor\<close> is not listed under \<^verbatim>\<open>cu.edu.eg\<close>, yet the resolver
  returns a result, the faculty being the member inherited from \<^verbatim>\<open>Object.prototype\<close>.
\<close>

theorem resolver_counterexample:
  "Universities ''aun.edu.eg'' = None
   \<and> extractUserDataFromEmail Universities ''someone@sci.aun.edu.eg'' = Inl invalid_format_message
   \<and> invalid_format_message \<noteq> unsupported_university_message ''aun.edu.eg''
   \<and> subdomains cairo_university ''constructor'' = None
   \<and> extractUserDataFromEmail Universities ''someone@constructor.cu.edu.eg'' =
       Inr \<lparr> ed_university = ''Cairo University'', ed_faculty = Inherited ''constructor'',
             ed_role = instructor, ed_studentId = None \<rparr>"
  by (simp add: char_defs resolver_defs invalid_format_message_def
      unsupported_university_message_def)

theorem resolver_failures_witness:
  "extractUserDataFromEmail Universities ''someone@sci.aun.edu.eg'' = Inl invalid_format_message
   \<and> extractUserDataFromEmail Map.empty ''someone@sci.cu.edu.eg'' =
       Inl (unsupported_university_message ''cu.edu.eg'')
   \<and> extractUserDataFromEmail Universities ''someone@physics.cu.edu.eg'' =
       Inl (unsupported_faculty_message ''physics'' ''Cairo University'')"
proof -
  have s: "\<not> suffix ''.cu.edu.eg'' (map fold_ascii ''someone@sci.aun.edu.eg'')"
    by (simp add: char_defs suffix_def)
  have m1: "match_email ''someone@sci.cu.edu.eg'' = Some (''someone'', False, ''sci'', ''cu.edu.eg'')"
    by (simp add: char_defs resolver_defs)
  have m2: "match_email ''someone@physics.cu.edu.eg'' =
      Some (''someone'', False, ''physics'', ''cu.edu.eg'')"
    by (simp add: char_defs resolver_defs)
  have f: "Universities ''cu.edu.eg'' = Some cairo_university
      \<and> subdomains cairo_university (toLowerCase ''physics'') = None
      \<and> toLowerCase ''physics'' \<notin> set object_prototype_names"
    by (simp add: char_defs resolver_defs)
  have l: "toLowerCase ''physics'' = ''physics''" "name cairo_university = ''Cairo University''"
    by (simp_all add: char_defs cairo_university_def)
  have a: "extractUserDataFromEmail Universities ''someone@sci.aun.edu.eg'' = Inl invalid_format_message"
    by (rule resolver_failures [THEN conjunct1, THEN mp, OF s])
  have b: "extractUserDataFromEmail Map.empty ''someone@sci.cu.edu.eg'' =
       Inl (unsupported_university_message ''cu.edu.eg'')"
    using resolver_failures [where dir = Map.empty, THEN conjunct2, THEN conjunct2,
        THEN conjunct1, THEN mp, OF m1, THEN conjunct2, THEN conjunct1]
    by simp
  have c: "extractUserDataFromEmail Universities ''someone@physics.cu.edu.eg'' =
       Inl (unsupported_faculty_message ''physics'' ''Cairo University'')"
    using resolver_failures [where dir = Universities and u = cairo_university,
        THEN conjunct2, THEN conjunct2, THEN conjunct1, THEN mp, OF m2,
        THEN conjunct2, THEN conjunct2, THEN mp, OF f]
    unfolding l .
  show ?thesis using a b c by (intro conjI)
qed

section \<open>The store\<close>

lemma findById_SomeD:
  "findById us i = Some u \<Longrightarrow> oid u = i \<and> u \<in> set us"
  unfolding findById_def by (auto simp: find_Some_iff)

lemma findById_None_iff:
  "findById us i = None \<longleftrightarrow> i \<notin> oid ` set us"
  unfolding findById_def by (auto simp: find_None_iff)

lemma deleteOne_filter:
  "distinct (map oid us) \<Longrightarrow> deleteOne us i = filter (\<lambda>v. oid v \<noteq> i) us"
proof (induction us)
  case Nil
  then show ?case by simp
next
  case (Cons u us)
  show ?case
  proof (cases "oid u = i")
    case True
    then have "i \<notin> oid ` set us" using Cons.prems by auto
    then have "filter (\<lambda>v. oid v \<noteq> i) us = us"
      by (auto intro: filter_True)
    then show ?thesis using True by simp
  next
    case False
    then show ?thesis using Cons by simp
  qed
qed

lemma findById_deleteOne_same:
  "distinct (map oid us) \<Longrightarrow> findById (deleteOne us i) i = None"
  by (auto simp: deleteOne_filter findById_None_iff)

lemma findById_deleteOne_other:
  "j \<noteq> i \<Longrightarrow> findById (deleteOne us j) i = findById us i"
  unfolding findById_def by (induction us) auto

lemma findById_save_same:
  "findById us i = Some u \<Longrightarrow> oid d = i \<Longrightarrow> findById (save d us) i = Some d"
  unfolding findById_def save_def by (induction us) (auto split: if_splits)

lemma findById_save_other:
  "oid d \<noteq> i \<Longrightarrow> findById (save d us) i = findById us i"
  unfolding findById_def save_def by (induction us) auto

section \<open>Verification\<close>

text \<open>
  C3. A verification of a still-unverified account, the store answering: when more than 24
  hours have passed since \<^verbatim>\<open>createdAt\<close> the account is deleted (the other accounts stay),
  the call fails with the expired-link code, and a later verification of that id finds no
  user; when at most 24 hours have passed the account is marked verified and its
  projection returned.
\<close>

theorem verify_email_window:
  "(distinct (map oid (users st)) \<and> findById (users st) i = Some u \<and> \<not> isEmailVerified u
      \<and> createdAt u = Some t \<and> \<not> rejects e FindById \<and> \<not> rejects e DeleteOne
      \<and> 24 * 60 * 60 * 1000 < now e - t
    \<longrightarrow> fst (verify_email e st (Uid i)) = token_expired
        \<and> users (snd (verify_email e st (Uid i))) = filter (\<lambda>v. oid v \<noteq> i) (users st)
        \<and> findById (users (snd (verify_email e st (Uid i)))) i = None
        \<and> (\<not> rejects e' FindById \<longrightarrow>
             fst (verify_email e' (snd (verify_email e st (Uid i))) (Uid i)) =
               json 400 ''INVALID_UID'' ''Invalid verification link or user not found''
                 NoPayload))
   \<and> (findById (users st) i = Some u \<and> \<not> isEmailVerified u
      \<and> createdAt u = Some t \<and> \<not> rejects e FindById \<and> \<not> rejects e Save
      \<and> now e - t \<le> 24 * 60 * 60 * 1000
    \<longrightarrow> verify_email e st (Uid i) =
          (json 200 ''EMAIL_VERIFIED_SUCCESS'' ''Email verified successfully. You can now login.''
             (UserOnly \<lparr> j_id = i, j_fullName = fullName u, j_email = email u,
                         j_studentId = None, j_role = role u, j_university = university u,
                         j_college = college u, j_isEmailVerified = Some True \<rparr>),
           st \<lparr> users := save (u \<lparr> isEmailVerified := True \<rparr>) (users st) \<rparr>)
        \<and> findById (users (snd (verify_email e st (Uid i)))) i
            = Some (u \<lparr> isEmailVerified := True \<rparr>))"
proof (intro conjI impI)
  assume h: "distinct (map oid (users st)) \<and> findById (users st) i = Some u
      \<and> \<not> isEmailVerified u
      \<and> createdAt u = Some t \<and> \<not> rejects e FindById \<and> \<not> rejects e DeleteOne
      \<and> 24 * 60 * 60 * 1000 < now e - t"
  then have id: "oid u = i" using findById_SomeD by blast
  have v: "verify_email e st (Uid i) =
      (token_expired, st \<lparr> users := deleteOne (users st) i \<rparr>)"
    using h id by (simp add: verify_email_def ageMs_def maxAgeMs_def remove_expired_def)
  show "fst (verify_email e st (Uid i)) = token_expired"
    by (simp add: v)
  show "users (snd (verify_email e st (Uid i))) = filter (\<lambda>v. oid v \<noteq> i) (users st)"
    using h by (simp add: v deleteOne_filter)
  show gone: "findById (users (snd (verify_email e st (Uid i)))) i = None"
    using h by (simp add: v findById_deleteOne_same)
  {
    assume "\<not> rejects e' FindById"
    then show "fst (verify_email e' (snd (verify_email e st (Uid i))) (Uid i)) =
        json 400 ''INVALID_UID'' ''Invalid verification link or user not found'' NoPayload"
      using gone by (simp add: verify_email_def)
  }
next
  assume h: "findById (users st) i = Some u \<and> \<not> isEmailVerified u
      \<and> createdAt u = Some t \<and> \<not> rejects e FindById \<and> \<not> rejects e Save
      \<and> now e - t \<le> 24 * 60 * 60 * 1000"
  then have id: "oid u = i" using findById_SomeD by blast
  show v: "verify_email e st (Uid i) =
          (json 200 ''EMAIL_VERIFIED_SUCCESS'' ''Email verified successfully. You can now login.''
             (UserOnly \<lparr> j_id = i, j_fullName = fullName u, j_email = email u,
                         j_studentId = None, j_role = role u, j_university = university u,
                         j_college = college u, j_isEmailVerified = Some True \<rparr>),
           st \<lparr> users := save (u \<lparr> isEmailVerified := True \<rparr>) (users st) \<rparr>)"
    using h id
    by (simp add: verify_email_def ageMs_def maxAgeMs_def Let_def projection_def
        with_verified_def)
  show "findById (users (snd (verify_email e st (Uid i)))) i
            = Some (u \<lparr> isEmailVerified := True \<rparr>)"
    using h id by (simp add: v findById_save_same)
qed

theorem verify_email_window_witness:
  "verify_email (sample_env \<lparr> now := 86400001 \<rparr>) sample_state (Uid 1) =
     (json 400 ''TOKEN_EXPIRED_ACCOUNT_REMOVED''
        ''Verification link has expired and the unverified account has been removed. Please register again.''
        NoPayload,
      empty_state)
   \<and> fst (verify_email sample_env empty_state (Uid 1)) =
       json 400 ''INVALID_UID'' ''Invalid verification link or user not found'' NoPayload
   \<and> verify_email (sample_env \<lparr> now := 86400000 \<rparr>) sample_state (Uid 1) =
       (json 200 ''EMAIL_VERIFIED_SUCCESS'' ''Email verified successfully. You can now login.''
          (UserOnly \<lparr> j_id = 1, j_fullName = ''Dr. Dina'', j_email = ''dina@sci.cu.edu.eg'',
                      j_studentId = None, j_role = instructor,
                      j_university = ''Cairo University'', j_college = ''Faculty of Science'',
                      j_isEmailVerified = Some True \<rparr>),
        verified_state)"
proof -
  have late: "distinct (map oid (users sample_state))
      \<and> findById (users sample_state) 1 = Some sample_user
      \<and> \<not> isEmailVerified sample_user \<and> createdAt sample_user = Some 0
      \<and> \<not> rejects (sample_env \<lparr> now := 86400001 \<rparr>) FindById
      \<and> \<not> rejects (sample_env \<lparr> now := 86400001 \<rparr>) DeleteOne
      \<and> 24 * 60 * 60 * 1000 < now (sample_env \<lparr> now := 86400001 \<rparr>) - 0"
    by (simp add: sample_defs findById_def)
  have in_time: "findById (users sample_state) 1 = Some sample_user
      \<and> \<not> isEmailVerified sample_user \<and> createdAt sample_user = Some 0
      \<and> \<not> rejects (sample_env \<lparr> now := 86400000 \<rparr>) FindById
      \<and> \<not> rejects (sample_env \<lparr> now := 86400000 \<rparr>) Save
      \<and> now (sample_env \<lparr> now := 86400000 \<rparr>) - 0 \<le> 24 * 60 * 60 * 1000"
    by (simp add: sample_defs findById_def)
  have ok: "\<not> rejects sample_env FindById"
    by (simp add: sample_defs)
  note a = verify_email_window [where e' = sample_env, THEN conjunct1, THEN mp, OF late]
  note b = verify_email_window [THEN conjunct2, THEN mp, OF in_time]
  have st: "snd (verify_email (sample_env \<lparr> now := 86400001 \<rparr>) sample_state (Uid 1)) = empty_state"
    by (simp add: handler_defs sample_defs)
  have 1: "verify_email (sample_env \<lparr> now := 86400001 \<rparr>) sample_state (Uid 1) =
     (json 400 ''TOKEN_EXPIRED_ACCOUNT_REMOVED''
        ''Verification link has expired and the unverified account has been removed. Please register again.''
        NoPayload,
      empty_state)"
    using a [THEN conjunct1] st by (simp add: token_expired_def prod_eq_iff)
  have 2: "fst (verify_email sample_env empty_state (Uid 1)) =
       json 400 ''INVALID_UID'' ''Invalid verification link or user not found'' NoPayload"
    using a [THEN conjunct2, THEN conjunct2, THEN conjunct2, THEN mp, OF ok] unfolding st .
  have 3: "verify_email (sample_env \<lparr> now := 86400000 \<rparr>) sample_state (Uid 1) =
       (json 200 ''EMAIL_VERIFIED_SUCCESS'' ''Email verified successfully. You can now login.''
          (UserOnly \<lparr> j_id = 1, j_fullName = ''Dr. Dina'', j_email = ''dina@sci.cu.edu.eg'',
                      j_studentId = None, j_role = instructor,
                      j_university = ''Cairo University'', j_college = ''Faculty of Science'',
                      j_isEmailVerified = Some True \<rparr>),
        verified_state)"
    using b [THEN conjunct1] by (simp add: sample_defs save_def)
  show ?thesis using 1 2 3 by (intro conjI)
qed

text \<open>
  C10. In the expiry branch a rejected delete is caught and logged: both routes still
  answer that the link has expired (the JSON route: and that the account was removed),
  while the account is still in the store.
\<close>

theorem expired_delete_failure_swallowed:
  "findById (users st) i = Some u \<and> \<not> isEmailVerified u \<and> \<not> rejects e FindById
     \<and> maxAgeMs < ageMs e u \<and> rejects e DeleteOne
   \<longrightarrow> verify_email e st (Uid i) =
         (token_expired, st \<lparr> console := console st @ [delete_warning] \<rparr>)
       \<and> verify_email_link e st (Uid i) =
         (link_expired, st \<lparr> console := console st @ [delete_warning] \<rparr>)
       \<and> findById (users (snd (verify_email e st (Uid i)))) i = Some u
       \<and> findById (users (snd (verify_email_link e st (Uid i)))) i = Some u"
  by (simp add: verify_email_def verify_email_link_def remove_expired_def logged_def)

theorem expired_delete_failure_swallowed_witness:
  "verify_email (sample_env \<lparr> now := 86400001, rejects := (\<lambda>operation. operation = DeleteOne) \<rparr>)
      sample_state (Uid 1) =
     (json 400 ''TOKEN_EXPIRED_ACCOUNT_REMOVED''
        ''Verification link has expired and the unverified account has been removed. Please register again.''
        NoPayload,
      sample_state \<lparr> console := [''[WARNING] Failed to delete expired unverified user:''] \<rparr>)
   \<and> users (sample_state \<lparr> console := [''[WARNING] Failed to delete expired unverified user:''] \<rparr>)
       = [sample_user]"
proof -
  have h: "findById (users sample_state) 1 = Some sample_user \<and> \<not> isEmailVerified sample_user
     \<and> \<not> rejects (sample_env \<lparr> now := 86400001, rejects := (\<lambda>operation. operation = DeleteOne) \<rparr>) FindById
     \<and> maxAgeMs < ageMs (sample_env \<lparr> now := 86400001, rejects := (\<lambda>operation. operation = DeleteOne) \<rparr>) sample_user
     \<and> rejects (sample_env \<lparr> now := 86400001, rejects := (\<lambda>operation. operation = DeleteOne) \<rparr>) DeleteOne"
    by (simp add: sample_defs findById_def ageMs_def maxAgeMs_def)
  show ?thesis
    using expired_delete_failure_swallowed [THEN mp, OF h, THEN conjunct1]
    by (simp add: token_expired_def delete_warning_def sample_defs)
qed

lemma verified_stays_post:
  assumes "findById (users st) i = Some u" and "isEmailVerified u"
  shows "findById (users (snd (verify_email e st p))) i = Some u"
proof (cases p)
  case NoUid
  then show ?thesis using assms by (simp add: verify_email_def)
next
  case Malformed
  then show ?thesis using assms by (simp add: verify_email_def logged_def)
next
  case (Uid j)
  show ?thesis
  proof (cases "findById (users st) j")
    case None
    then show ?thesis using assms Uid by (simp add: verify_email_def logged_def)
  next
    case (Some w)
    then have w: "oid w = j" using findById_SomeD by blast
    have "j \<noteq> i" if "\<not> isEmailVerified w"
      using that Some assms by auto
    then show ?thesis using assms Uid Some w
      by (simp add: verify_email_def logged_def remove_expired_def Let_def
          findById_deleteOne_other findById_save_other)
  qed
qed

lemma verified_stays_link:
  assumes "findById (users st) i = Some u" and "isEmailVerified u"
  shows "findById (users (snd (verify_email_link e st p))) i = Some u"
proof (cases p)
  case NoUid
  then show ?thesis using assms by (simp add: verify_email_link_def)
next
  case Malformed
  then show ?thesis using assms by (simp add: verify_email_link_def logged_def)
next
  case (Uid j)
  show ?thesis
  proof (cases "findById (users st) j")
    case None
    then show ?thesis using assms Uid by (simp add: verify_email_link_def logged_def)
  next
    case (Some w)
    then have w: "oid w = j" using findById_SomeD by blast
    have "j \<noteq> i" if "\<not> isEmailVerified w"
      using that Some assms by auto
    then show ?thesis using assms Uid Some w
      by (simp add: verify_email_link_def logged_def remove_expired_def Let_def
          login_redirect_def findById_deleteOne_other findById_save_other
          split: option.splits)
  qed
qed

text \<open>
  C4, as amended. For an account that is already verified, \<^verbatim>\<open>POST /verify-email\<close> fails
  with \<^verbatim>\<open>ALREADY_VERIFIED\<close> and changes nothing; the link \<^verbatim>\<open>GET /verify-email/:uid\<close>
  does not fail: it redirects to the dashboard with a freshly signed token (or shows the
  failure page when signing throws) and leaves the accounts as they are. Whatever the
  time elapsed, and whatever account a verification request names, a verified account
  stays in the store as it is.
\<close>

theorem already_verified_no_change:
  "findById (users st) i = Some u \<and> isEmailVerified u
   \<longrightarrow> (\<not> rejects e FindById \<longrightarrow>
          verify_email e st (Uid i) =
            (json 400 ''ALREADY_VERIFIED'' ''Email is already verified'' NoPayload, st)
          \<and> users (snd (verify_email_link e st (Uid i))) = users st
          \<and> fst (verify_email_link e st (Uid i)) =
              (case sign e i (role u) (email u) of
                 None \<Rightarrow> Html 500 ''Verification Failed'' ''An error occurred.''
               | Some token \<Rightarrow>
                   Redirect (dashboardUrl u) token
                     \<lparr> j_id = i, j_fullName = fullName u, j_email = email u,
                       j_studentId = studentId u, j_role = role u,
                       j_university = university u, j_college = college u,
                       j_isEmailVerified = None \<rparr>))
       \<and> findById (users (snd (verify_email e st p))) i = Some u
       \<and> findById (users (snd (verify_email_link e st p))) i = Some u"
proof (intro impI conjI)
  assume h: "findById (users st) i = Some u \<and> isEmailVerified u"
  then have id: "oid u = i" using findById_SomeD by blast
  show "findById (users (snd (verify_email e st p))) i = Some u"
    using h verified_stays_post by blast
  show "findById (users (snd (verify_email_link e st p))) i = Some u"
    using h verified_stays_link by blast
  assume ok: "\<not> rejects e FindById"
  show "verify_email e st (Uid i) =
      (json 400 ''ALREADY_VERIFIED'' ''Email is already verified'' NoPayload, st)"
    using h ok by (simp add: verify_email_def)
  show "users (snd (verify_email_link e st (Uid i))) = users st"
    using h ok
    by (simp add: verify_email_link_def login_redirect_def logged_def split: option.splits)
  show "fst (verify_email_link e st (Uid i)) =
      (case sign e i (role u) (email u) of
         None \<Rightarrow> Html 500 ''Verification Failed'' ''An error occurred.''
       | Some token \<Rightarrow>
           Redirect (dashboardUrl u) token
             \<lparr> j_id = i, j_fullName = fullName u, j_email = email u,
               j_studentId = studentId u, j_role = role u,
               j_university = university u, j_college = college u,
               j_isEmailVerified = None \<rparr>)"
    using h ok id
    by (simp add: verify_email_link_def login_redirect_def direct_failed_def
        projection_def with_studentId_def split: option.splits)
qed

theorem already_verified_no_change_witness:
  "verify_email (sample_env \<lparr> now := 90000000 \<rparr>) verified_state (Uid 1) =
     (json 400 ''ALREADY_VERIFIED'' ''Email is already verified'' NoPayload, verified_state)
   \<and> users (snd (verify_email_link (sample_env \<lparr> now := 90000000 \<rparr>) verified_state (Uid 1)))
       = users verified_state
   \<and> findById (users (snd (verify_email (sample_env \<lparr> now := 90000000 \<rparr>)
           verified_state (Uid 1)))) 1 = Some (sample_user \<lparr> isEmailVerified := True \<rparr>)"
proof -
  have h: "findById (users verified_state) 1 = Some (sample_user \<lparr> isEmailVerified := True \<rparr>)
      \<and> isEmailVerified (sample_user \<lparr> isEmailVerified := True \<rparr>)"
    by (simp add: sample_defs findById_def)
  have ok: "\<not> rejects (sample_env \<lparr> now := 90000000 \<rparr>) FindById"
    by (simp add: sample_defs)
  note t = already_verified_no_change [where e = "sample_env \<lparr> now := 90000000 \<rparr>"
      and p = "Uid 1", THEN mp, OF h]
  note a = t [THEN conjunct1, THEN mp, OF ok]
  note b = t [THEN conjunct2, THEN conjunct1]
  show ?thesis using a b by simp
qed

text \<open>
  C4 as stated fails on the link route: for a verified account it answers with a redirect
  that carries a token, not with an already-verified failure.
\<close>

theorem already_verified_counterexample:
  "findById (users verified_state) 1 = Some (sample_user \<lparr> isEmailVerified := True \<rparr>)
   \<and> verify_email_link sample_env verified_state (Uid 1) =
     (Redirect ''http://127.0.0.1:5501/frontend/html/instructor-profile.html''
        ''token:dina@sci.cu.edu.eg''
        \<lparr> j_id = 1, j_fullName = ''Dr. Dina'', j_email = ''dina@sci.cu.edu.eg'',
          j_studentId = None, j_role = instructor, j_university = ''Cairo University'',
          j_college = ''Faculty of Science'', j_isEmailVerified = None \<rparr>,
      verified_state)"
  by (simp add: handler_defs sample_defs)

section \<open>Registration\<close>

lemma list_ex_image:
  "list_ex (\<lambda>u. f u = v) us \<Longrightarrow> v \<in> f ` set us"
  unfolding list_ex_iff by auto

lemma violated_index_SomeD:
  assumes "violated_index us doc = Some key"
  shows "(key = ''_id'' \<and> oid doc \<in> oid ` set us)
       \<or> (key = ''email'' \<and> email doc \<in> email ` set us)
       \<or> (key = ''studentId'' \<and> studentId doc \<noteq> None \<and> studentId doc \<in> studentId ` set us)"
proof (cases "list_ex (\<lambda>u. oid u = oid doc) us")
  case True
  then have "key = ''_id''" using assms unfolding violated_index_def by simp
  then show ?thesis using list_ex_image [OF True] by (intro disjI1 conjI)
next
  case no_id: False
  show ?thesis
  proof (cases "list_ex (\<lambda>u. email u = email doc) us")
    case True
    then have "key = ''email''" using assms no_id unfolding violated_index_def by simp
    then show ?thesis using list_ex_image [OF True] by (intro disjI2 disjI1 conjI)
  next
    case no_email: False
    have sid: "studentId doc \<noteq> None \<and> list_ex (\<lambda>u. studentId u = studentId doc) us"
      using assms no_id no_email unfolding violated_index_def
      by (simp only: if_False split: if_splits) simp_all
    then have "key = ''studentId''"
      using assms no_id no_email unfolding violated_index_def by simp
    then show ?thesis using sid list_ex_image [of studentId "studentId doc" us]
      by (intro disjI2 conjI) simp_all
  qed
qed

lemma User_create_duplicate:
  assumes "User_create e us p = Inl (DuplicateKey field)"
  shows "(field = ''_id'' \<and> newId e \<in> oid ` set us)
       \<or> (field = ''email'' \<and> toLowerCase (p_email p) \<in> email ` set us)
       \<or> (field = ''studentId'' \<and> p_studentId p \<noteq> None
            \<and> p_studentId p \<in> studentId ` set us)"
proof -
  have "violated_index us (new_document e p) = Some field"
    using assms unfolding User_create_def
    by (simp split: if_splits option.splits)
  from violated_index_SomeD [OF this] show ?thesis
    by (simp add: new_document_def)
qed

text \<open>
  C6. When the checks of a registration pass and the insert is rejected for a duplicate
  key, the answer is \<^verbatim>\<open>409 DUPLICATE_ENTRY\<close> naming the key of the violated index, never
  the internal error; the key is \<^verbatim>\<open>email\<close> or \<^verbatim>\<open>studentId\<close> (or \<^verbatim>\<open>_id\<close>, when the
  driver allots an identifier that is already stored), and the value is indeed stored.
\<close>

theorem register_duplicate_entry:
  "(validated dir b = Inr emailData \<and> genHash e (rb_password b) = Some hashed
      \<and> User_create e (users st)
           (user_payload (display_name (rb_fullName b) emailData) (toLowerCase (rb_email b))
              hashed emailData)
         = Inl (DuplicateKey field)
    \<longrightarrow> register e dir st b =
          (json 409 ''DUPLICATE_ENTRY'' (''Account with this '' @ field @ '' already exists'')
             (Field field),
           st \<lparr> console := console st @ [registration_log] \<rparr>)
        \<and> code (fst (register e dir st b)) \<noteq> Some ''INTERNAL_SERVER_ERROR''
        \<and> status (fst (register e dir st b)) \<noteq> 500)
   \<and> (User_create e us p = Inl (DuplicateKey field)
    \<longrightarrow> (field = ''_id'' \<and> newId e \<in> oid ` set us)
        \<or> (field = ''email'' \<and> toLowerCase (p_email p) \<in> email ` set us)
        \<or> (field = ''studentId'' \<and> p_studentId p \<noteq> None
            \<and> p_studentId p \<in> studentId ` set us))"
proof (intro conjI impI)
  assume h: "validated dir b = Inr emailData \<and> genHash e (rb_password b) = Some hashed
      \<and> User_create e (users st)
           (user_payload (display_name (rb_fullName b) emailData) (toLowerCase (rb_email b))
              hashed emailData)
         = Inl (DuplicateKey field)"
  show r: "register e dir st b =
          (json 409 ''DUPLICATE_ENTRY'' (''Account with this '' @ field @ '' already exists'')
             (Field field),
           st \<lparr> console := console st @ [registration_log] \<rparr>)"
    using h by (simp add: register_def Let_def register_failed_def logged_def)
  show "code (fst (register e dir st b)) \<noteq> Some ''INTERNAL_SERVER_ERROR''"
    by (simp add: r json_def)
  show "status (fst (register e dir st b)) \<noteq> 500"
    by (simp add: r json_def)
next
  assume "User_create e us p = Inl (DuplicateKey field)"
  then show "(field = ''_id'' \<and> newId e \<in> oid ` set us)
        \<or> (field = ''email'' \<and> toLowerCase (p_email p) \<in> email ` set us)
        \<or> (field = ''studentId'' \<and> p_studentId p \<noteq> None
            \<and> p_studentId p \<in> studentId ` set us)"
    by (rule User_create_duplicate)
qed

lemma dina_validated: "validated Universities dina_body = Inr dina"
  by (simp add: validated_def dina_body_def dina_def validatePasswordStrength_def
      requirement_values_def char_defs resolver_defs)

lemma dina_payload:
  "user_payload (display_name (rb_fullName dina_body) dina)
              (toLowerCase (rb_email dina_body)) ''hash:abc123!'' dina =
    \<lparr> p_fullName = ''Dr. Dina'', p_email = ''dina@sci.cu.edu.eg'', p_password = ''hash:abc123!'',
      p_role = instructor, p_university = ''Cairo University'',
      p_college = Own ''Faculty of Science'', p_isEmailVerified = False, p_studentId = None \<rparr>"
  by (simp add: dina_body_def dina_def user_payload_def display_name_def startsWith_def char_defs)

theorem register_duplicate_entry_witness:
  "register sample_env Universities sample_state dina_body =
     (json 409 ''DUPLICATE_ENTRY'' ''Account with this email already exists'' (Field ''email''),
      sample_state \<lparr> console := [''[ERROR] Registration process failed:''] \<rparr>)"
proof -
  have c: "User_create sample_env (users sample_state)
           (user_payload (display_name (rb_fullName dina_body) dina)
              (toLowerCase (rb_email dina_body)) ''hash:abc123!'' dina)
         = Inl (DuplicateKey ''email'')"
    unfolding dina_payload
    by (simp add: sample_defs register_defs char_defs)
  have h: "validated Universities dina_body = Inr dina
      \<and> genHash sample_env (rb_password dina_body) = Some ''hash:abc123!''
      \<and> User_create sample_env (users sample_state)
           (user_payload (display_name (rb_fullName dina_body) dina)
              (toLowerCase (rb_email dina_body)) ''hash:abc123!'' dina)
         = Inl (DuplicateKey ''email'')"
    unfolding dina_validated c
    by (simp add: dina_body_def sample_defs)
  show ?thesis
    using register_duplicate_entry [THEN conjunct1, THEN mp, OF h, THEN conjunct1]
    by (simp add: sample_defs registration_log_def)
qed

lemma cast_college_sendMail:
  "cast_college (e \<lparr> sendMail := f \<rparr>) v = cast_college e v"
  by (cases v) (simp_all add: cast_college_def)

lemma new_document_sendMail:
  "new_document (e \<lparr> sendMail := f \<rparr>) p = new_document e p"
  by (simp add: new_document_def cast_college_sendMail)

lemma validation_failures_sendMail:
  "validation_failures (e \<lparr> sendMail := f \<rparr>) p = validation_failures e p"
  by (simp add: validation_failures_def cast_college_sendMail)

lemma User_create_sendMail [simp]:
  "User_create (e \<lparr> sendMail := f \<rparr>) us p = User_create e us p"
  unfolding User_create_def new_document_sendMail validation_failures_sendMail by simp

text \<open>
  C7. When the checks of a registration pass, the insert succeeds and the dispatch of the
  verification mail is rejected, the answer is the same \<^verbatim>\<open>201\<close> with the new account's
  projection as when the mail is sent, and the account is stored all the same; the only
  traces of the failure are a warning on the console and no entry in the outbox.
\<close>

theorem register_mail_failure:
  "validated dir b = Inr emailData \<and> genHash e (rb_password b) = Some hashed
      \<and> User_create e (users st)
           (user_payload (display_name (rb_fullName b) emailData) (toLowerCase (rb_email b))
              hashed emailData)
         = Inr newUser
      \<and> \<not> sendMail e (toLowerCase (rb_email b)) (oid newUser)
             (display_name (rb_fullName b) emailData)
   \<longrightarrow> register e dir st b =
         (json 201 ''REGISTRATION_SUCCESS_VERIFY_EMAIL''
            ''Account created successfully. Please verify your email to activate your account.''
            (UserOnly \<lparr> j_id = oid newUser, j_fullName = fullName newUser,
                        j_email = email newUser, j_studentId = studentId newUser,
                        j_role = role newUser, j_university = university newUser,
                        j_college = college newUser,
                        j_isEmailVerified = Some (isEmailVerified newUser) \<rparr>),
          \<lparr> users = users st @ [newUser], outbox = outbox st,
            console = console st @ [mail_warning] \<rparr>)
       \<and> fst (register (e \<lparr> sendMail := (\<lambda>to i n. True) \<rparr>) dir st b) = fst (register e dir st b)
       \<and> users (snd (register (e \<lparr> sendMail := (\<lambda>to i n. True) \<rparr>) dir st b))
           = users (snd (register e dir st b))
       \<and> console (snd (register (e \<lparr> sendMail := (\<lambda>to i n. True) \<rparr>) dir st b)) = console st"
proof (intro impI conjI)
  assume h: "validated dir b = Inr emailData \<and> genHash e (rb_password b) = Some hashed
      \<and> User_create e (users st)
           (user_payload (display_name (rb_fullName b) emailData) (toLowerCase (rb_email b))
              hashed emailData)
         = Inr newUser
      \<and> \<not> sendMail e (toLowerCase (rb_email b)) (oid newUser)
             (display_name (rb_fullName b) emailData)"
  show r: "register e dir st b =
         (json 201 ''REGISTRATION_SUCCESS_VERIFY_EMAIL''
            ''Account created successfully. Please verify your email to activate your account.''
            (UserOnly \<lparr> j_id = oid newUser, j_fullName = fullName newUser,
                        j_email = email newUser, j_studentId = studentId newUser,
                        j_role = role newUser, j_university = university newUser,
                        j_college = college newUser,
                        j_isEmailVerified = Some (isEmailVerified newUser) \<rparr>),
          \<lparr> users = users st @ [newUser], outbox = outbox st,
            console = console st @ [mail_warning] \<rparr>)"
    using h
    by (simp add: register_def Let_def registration_success_def sendVerificationEmail_def
        logged_def projection_def with_studentId_def with_verified_def)
  have d: "register (e \<lparr> sendMail := (\<lambda>to i n. True) \<rparr>) dir st b =
      (registration_success newUser,
       \<lparr> users = users st @ [newUser],
         outbox = outbox st @ [(toLowerCase (rb_email b), oid newUser,
                               display_name (rb_fullName b) emailData)],
         console = console st \<rparr>)"
    using h
    by (simp add: register_def Let_def sendVerificationEmail_def)
  show "fst (register (e \<lparr> sendMail := (\<lambda>to i n. True) \<rparr>) dir st b) = fst (register e dir st b)"
    unfolding d r
    by (simp add: registration_success_def projection_def with_studentId_def with_verified_def)
  show "users (snd (register (e \<lparr> sendMail := (\<lambda>to i n. True) \<rparr>) dir st b))
           = users (snd (register e dir st b))"
    unfolding d r by simp
  show "console (snd (register (e \<lparr> sendMail := (\<lambda>to i n. True) \<rparr>) dir st b)) = console st"
    unfolding d by simp
qed

theorem register_mail_failure_witness:
  "register (sample_env \<lparr> sendMail := (\<lambda>to i n. False) \<rparr>) Universities empty_state dina_body =
     (json 201 ''REGISTRATION_SUCCESS_VERIFY_EMAIL''
        ''Account created successfully. Please verify your email to activate your account.''
        (UserOnly \<lparr> j_id = 2, j_fullName = ''Dr. Dina'', j_email = ''dina@sci.cu.edu.eg'',
                    j_studentId = None, j_role = instructor,
                    j_university = ''Cairo University'', j_college = ''Faculty of Science'',
                    j_isEmailVerified = Some False \<rparr>),
      \<lparr> users = [dina_account], outbox = [],
        console = [''[WARNING] Failed to send verification email:''] \<rparr>)"
proof -
  have c: "User_create (sample_env \<lparr> sendMail := (\<lambda>to i n. False) \<rparr>) (users empty_state)
           (user_payload (display_name (rb_fullName dina_body) dina)
              (toLowerCase (rb_email dina_body)) ''hash:abc123!'' dina)
         = Inr dina_account"
    unfolding dina_payload
    by (simp add: sample_defs register_defs char_defs dina_account_def)
  have h: "validated Universities dina_body = Inr dina
      \<and> genHash (sample_env \<lparr> sendMail := (\<lambda>to i n. False) \<rparr>) (rb_password dina_body)
          = Some ''hash:abc123!''
      \<and> User_create (sample_env \<lparr> sendMail := (\<lambda>to i n. False) \<rparr>) (users empty_state)
           (user_payload (display_name (rb_fullName dina_body) dina)
              (toLowerCase (rb_email dina_body)) ''hash:abc123!'' dina)
         = Inr dina_account
      \<and> \<not> sendMail (sample_env \<lparr> sendMail := (\<lambda>to i n. False) \<rparr>)
             (toLowerCase (rb_email dina_body)) (oid dina_account)
             (display_name (rb_fullName dina_body) dina)"
    unfolding dina_validated c
    by (simp add: dina_body_def sample_defs)
  show ?thesis
    using register_mail_failure [THEN mp, OF h, THEN conjunct1]
    by (simp add: sample_defs mail_warning_def dina_account_def)
qed

section \<open>Identifiers stay distinct\<close>

text \<open>No request makes two stored accounts share an \<^verbatim>\<open>_id\<close>.\<close>

lemma User_create_distinct:
  assumes "distinct (map oid us)" and "User_create e us p = Inr doc"
  shows "distinct (map oid (us @ [doc]))"
proof -
  have v: "violated_index us (new_document e p) = None" and d: "doc = new_document e p"
    using assms(2) unfolding User_create_def
    by (simp_all split: if_splits option.splits)
  have "\<not> list_ex (\<lambda>u. oid u = oid doc) us"
    using v unfolding violated_index_def d by (simp split: if_splits)
  then have "oid doc \<notin> oid ` set us"
    unfolding list_ex_iff by auto
  then show ?thesis using assms(1) by simp
qed

lemma distinct_deleteOne:
  "distinct (map oid us) \<Longrightarrow> distinct (map oid (deleteOne us i))"
  by (simp add: deleteOne_filter distinct_map_filter)

lemma map_oid_save:
  "map oid (save d us) = map oid us"
  unfolding save_def by (induction us) auto

lemma distinct_ids_preserved:
  assumes "distinct (map oid (users st))"
  shows "distinct (map oid (users (snd (register e dir st b))))"
    and "distinct (map oid (users (snd (verify_email e st p))))"
    and "distinct (map oid (users (snd (verify_email_link e st p))))"
    and "distinct (map oid (users (snd (login e st c))))"
proof -
  show "distinct (map oid (users (snd (register e dir st b))))"
    using assms User_create_distinct [of "users st" e]
    by (auto simp: register_def Let_def logged_def sendVerificationEmail_def
        split: sum.splits option.splits)
  show "distinct (map oid (users (snd (verify_email e st p))))"
    using assms distinct_deleteOne [of "users st"]
    by (auto simp: verify_email_def Let_def logged_def remove_expired_def map_oid_save
        split: uid_param.splits option.splits)
  show "distinct (map oid (users (snd (verify_email_link e st p))))"
    using assms distinct_deleteOne [of "users st"]
    by (auto simp: verify_email_link_def Let_def logged_def remove_expired_def map_oid_save
        login_redirect_def split: uid_param.splits option.splits)
  show "distinct (map oid (users (snd (login e st c))))"
    using assms by (simp add: login_def logged_def Let_def split: option.splits)
qed

section \<open>Login\<close>

text \<open>
  C9. A login never changes the collection of users (nor sends mail). In particular it does
  not purge: for an unverified account the answer is \<^verbatim>\<open>EMAIL_NOT_VERIFIED\<close>, whatever the
  account's age, and the state is the one before.
\<close>

theorem login_frame:
  "users (snd (login e st b)) = users st
   \<and> outbox (snd (login e st b)) = outbox st
   \<and> (lb_email b \<noteq> [] \<and> lb_password b \<noteq> [] \<and> \<not> rejects e FindOne
        \<and> findOne_email (users st) (toLowerCase (lb_email b)) = Some u
        \<and> \<not> isEmailVerified u
       \<longrightarrow> login e st b = (email_not_verified, st))"
  by (simp add: login_def logged_def Let_def split: option.splits)

theorem login_frame_witness:
  "ageMs (sample_env \<lparr> now := 90000000 \<rparr>) sample_user > maxAgeMs
   \<and> login (sample_env \<lparr> now := 90000000 \<rparr>) sample_state
        \<lparr> lb_email = ''Dina@sci.cu.edu.eg'', lb_password = ''abc123!'' \<rparr>
       = (json 403 ''EMAIL_NOT_VERIFIED'' ''Please verify your email first'' NoPayload,
          sample_state)"
proof -
  have h: "lb_email \<lparr> lb_email = ''Dina@sci.cu.edu.eg'', lb_password = ''abc123!'' \<rparr> \<noteq> []
     \<and> lb_password \<lparr> lb_email = ''Dina@sci.cu.edu.eg'', lb_password = ''abc123!'' \<rparr> \<noteq> []
     \<and> \<not> rejects (sample_env \<lparr> now := 90000000 \<rparr>) FindOne
     \<and> findOne_email (users sample_state)
          (toLowerCase (lb_email \<lparr> lb_email = ''Dina@sci.cu.edu.eg'', lb_password = ''abc123!'' \<rparr>))
         = Some sample_user
     \<and> \<not> isEmailVerified sample_user"
    by (simp add: sample_defs findOne_email_def char_defs)
  have "login (sample_env \<lparr> now := 90000000 \<rparr>) sample_state
        \<lparr> lb_email = ''Dina@sci.cu.edu.eg'', lb_password = ''abc123!'' \<rparr>
       = (email_not_verified, sample_state)"
    by (rule login_frame [THEN conjunct2, THEN conjunct2, THEN mp, OF h])
  moreover have "ageMs (sample_env \<lparr> now := 90000000 \<rparr>) sample_user > maxAgeMs"
    by (simp add: ageMs_def maxAgeMs_def sample_defs)
  ultimately show ?thesis by (simp add: email_not_verified_def)
qed

text \<open>
  What holds of C1: a login for an address that has no account, and a login with a wrong
  password for a verified account, get the same answer.
\<close>

lemma login_invalid_credentials:
  assumes "lb_email b \<noteq> []" and "lb_password b \<noteq> []" and "\<not> rejects e FindOne"
    and "findOne_email (users st) (toLowerCase (lb_email b)) = None
         \<or> (\<exists>u. findOne_email (users st) (toLowerCase (lb_email b)) = Some u
                \<and> isEmailVerified u \<and> compare e (lb_password b) (password u) = Some False)"
  shows "login e st b =
           (json 401 ''INVALID_CREDENTIALS'' ''Invalid email or password'' NoPayload, st)"
  using assms by (auto simp: login_def invalid_credentials_def Let_def)

text \<open>
  C1 fails on the code. The account of the sample state exists and is not verified; the
  password check against its hash fails; yet the answer is \<^verbatim>\<open>403 EMAIL_NOT_VERIFIED\<close>,
  which differs from the \<^verbatim>\<open>401 INVALID_CREDENTIALS\<close> that an unregistered address gets:
  the verification gate stands before the password check.
\<close>

theorem login_unverified_wrong_password:
  "findOne_email (users sample_state) ''dina@sci.cu.edu.eg'' = Some sample_user
   \<and> compare sample_env ''wrong-password'' (password sample_user) = Some False
   \<and> login sample_env sample_state
        \<lparr> lb_email = ''dina@sci.cu.edu.eg'', lb_password = ''wrong-password'' \<rparr>
       = (json 403 ''EMAIL_NOT_VERIFIED'' ''Please verify your email first'' NoPayload,
          sample_state)
   \<and> login sample_env sample_state
        \<lparr> lb_email = ''nobody@sci.cu.edu.eg'', lb_password = ''wrong-password'' \<rparr>
       = (json 401 ''INVALID_CREDENTIALS'' ''Invalid email or password'' NoPayload,
          sample_state)"
  by (simp add: handler_defs sample_defs char_defs)

end
